theory Spec2Isabelle
  imports Main "HOL-Library.Word"
begin

section \<open>Data model of \<open>api/ui/vip.go\<close>\<close>

text \<open>
  Go's \<open>string\<close> is a sequence of bytes and \<open>len\<close> counts them; it is modelled by
  \<^typ>\<open>string\<close>, whose characters are bytes. Go's \<open>error\<close> is modelled by its message,
  and a \<open>nil\<close> error by \<open>None\<close>.
\<close>

type_synonym uint64 = "64 word"

type_synonym error = string

definition byte :: "char \<Rightarrow> nat" where
  "byte c = of_char c"

text \<open>
  Modelled from the spec: the declaration of \<open>Host\<close> is not in this file. Section 3 of the
  specification gives it an identifier and a hardware (MAC) address, the only two parts
  that the handlers touch.
\<close>

record Host =
  ID :: uint64
  MAC :: string

record VIP =
  ID :: uint64
  IP :: string
  ActiveHost :: Host
  StandbyHost :: Host
  Description :: string

text \<open>
  Modelled from the spec: the declaration of \<open>Pagination\<close> is not in this file. The
  handlers read its \<open>Limit\<close> only and pass the value on unchanged.
\<close>

record Pagination =
  Offset :: nat
  Limit :: nat

text \<open>
  Modelled from the spec: the declaration of \<open>User\<close> is not in this file. A session
  resolves to a user carrying the requester identifier.
\<close>

record User =
  ID :: uint64

record listVIPParam =
  SessionID :: string
  Pagination :: Pagination

record addVIPParam =
  SessionID :: string
  IPID :: uint64
  ActiveHostID :: uint64
  StandbyHostID :: uint64
  Description :: string

record removeVIPParam =
  SessionID :: string
  ID :: uint64

record toggleVIPParam =
  SessionID :: string
  ID :: uint64

section \<open>\<open>utf8.RuneCountInString\<close>\<close>

text \<open>
  The description check counts runes with Go's \<open>unicode/utf8\<close>. The tables and the
  loop of \<open>RuneCountInString\<close> are written out as the package has them.
\<close>

definition RuneSelf :: nat where "RuneSelf = 0x80"
definition locb :: nat where "locb = 0x80"
definition hicb :: nat where "hicb = 0xBF"

definition xx :: nat where "xx = 0xF1"
definition as :: nat where "as = 0xF0"
definition s1 :: nat where "s1 = 0x02"
definition s2 :: nat where "s2 = 0x13"
definition s3 :: nat where "s3 = 0x03"
definition s4 :: nat where "s4 = 0x23"
definition s5 :: nat where "s5 = 0x34"
definition s6 :: nat where "s6 = 0x04"
definition s7 :: nat where "s7 = 0x44"

definition first :: "nat \<Rightarrow> nat" where
  "first c =
     (if c < 0x80 then as
      else if c < 0xC2 then xx
      else if c < 0xE0 then s1
      else if c = 0xE0 then s2
      else if c < 0xED then s3
      else if c = 0xED then s4
      else if c < 0xF0 then s3
      else if c = 0xF0 then s5
      else if c < 0xF4 then s6
      else if c = 0xF4 then s7
      else xx)"

definition acceptRanges :: "nat \<Rightarrow> nat \<times> nat" where
  "acceptRanges k =
     (if k = 0 then (locb, hicb)
      else if k = 1 then (0xA0, hicb)
      else if k = 2 then (locb, 0x9F)
      else if k = 3 then (0x90, hicb)
      else if k = 4 then (locb, 0x8F)
      else (0, 0))"

definition rune_step :: "string \<Rightarrow> nat \<Rightarrow> nat" where
  "rune_step s i =
     (let c = byte (s ! i) in
      if c < RuneSelf then 1
      else
        let x = first c in
        if x = xx then 1
        else
          let size = x mod 8 in
          if i + size > length s then 1
          else
            let accept = acceptRanges (x div 16) in
            if byte (s ! (i + 1)) < fst accept \<or> snd accept < byte (s ! (i + 1)) then 1
            else if size = 2 then size
            else if byte (s ! (i + 2)) < locb \<or> hicb < byte (s ! (i + 2)) then 1
            else if size = 3 then size
            else if byte (s ! (i + 3)) < locb \<or> hicb < byte (s ! (i + 3)) then 1
            else size)"

lemma first_size: "RuneSelf \<le> c \<Longrightarrow> first c \<noteq> xx \<Longrightarrow> first c mod 8 \<in> {2, 3, 4}"
  by (simp add: first_def RuneSelf_def xx_def s1_def s2_def s3_def s4_def s5_def s6_def s7_def
      split: if_splits)

lemma rune_step_pos: "0 < rune_step s i"
proof -
  have "first c mod 8 \<noteq> 0" if "RuneSelf \<le> c" "first c \<noteq> xx" for c
    using first_size [OF that] by auto
  then show ?thesis
    by (auto simp: rune_step_def Let_def not_less)
qed

function RuneCountInString_loop :: "string \<Rightarrow> nat \<Rightarrow> nat \<Rightarrow> nat" where
  "RuneCountInString_loop s i n =
     (if i < length s then RuneCountInString_loop s (i + rune_step s i) (n + 1) else n)"
  by pat_completeness auto
termination
proof (relation "measure (\<lambda>(s, i, n). length s - i)")
  show "wf (measure (\<lambda>(s, i, n). length s - i))" by simp
next
  fix s :: string and i n :: nat
  assume "i < length s"
  then show "((s, i + rune_step s i, n + 1), (s, i, n)) \<in> measure (\<lambda>(s, i, n). length s - i)"
    using rune_step_pos [of s i] by simp
qed

definition RuneCountInString :: "string \<Rightarrow> nat" where
  "RuneCountInString s = RuneCountInString_loop s 0 0"

text \<open>
  The specification counts Unicode code points. A code point that UTF-8 can carry is a
  scalar value: at most \<open>0x10FFFF\<close> and not a surrogate. \<open>utf8_string\<close> is the Go
  string holding a sequence of them, each written as \<open>utf8.EncodeRune\<close> writes a valid
  rune (one to four bytes).
\<close>

definition valid_rune :: "nat \<Rightarrow> bool" where
  "valid_rune r = (r \<le> 0x10FFFF \<and> \<not> (0xD800 \<le> r \<and> r \<le> 0xDFFF))"

definition EncodeRune :: "nat \<Rightarrow> string" where
  "EncodeRune r =
     (if r \<le> 0x7F then [char_of r]
      else if r \<le> 0x7FF then [char_of (0xC0 + r div 64), char_of (0x80 + r mod 64)]
      else if r \<le> 0xFFFF then
        [char_of (0xE0 + r div 4096), char_of (0x80 + r div 64 mod 64), char_of (0x80 + r mod 64)]
      else
        [char_of (0xF0 + r div 262144), char_of (0x80 + r div 4096 mod 64),
         char_of (0x80 + r div 64 mod 64), char_of (0x80 + r mod 64)])"

definition utf8_string :: "nat list \<Rightarrow> string" where
  "utf8_string cps = concat (map EncodeRune cps)"

section \<open>Parameter validation\<close>

definition listVIPParam_validate :: "listVIPParam \<Rightarrow> error option" where
  "listVIPParam_validate r =
     (if length (listVIPParam.SessionID r) \<noteq> 64 then Some ''invalid session id''
      else if Limit (listVIPParam.Pagination r) = 0 then Some ''invalid pagination limit''
      else None)"

definition addVIPParam_validate :: "addVIPParam \<Rightarrow> error option" where
  "addVIPParam_validate r =
     (if length (addVIPParam.SessionID r) \<noteq> 64 then Some ''invalid session id''
      else if ActiveHostID r = 0 then Some ''invalid active host id''
      else if StandbyHostID r = 0 then Some ''invalid standby host id''
      else if ActiveHostID r = StandbyHostID r then Some ''same host for the active and standby''
      else if RuneCountInString (addVIPParam.Description r) > 255 then Some ''too long description''
      else None)"

definition removeVIPParam_validate :: "removeVIPParam \<Rightarrow> error option" where
  "removeVIPParam_validate r =
     (if length (removeVIPParam.SessionID r) \<noteq> 64 then Some ''invalid session id''
      else if removeVIPParam.ID r = 0 then Some ''invalid VIP id''
      else None)"

definition toggleVIPParam_validate :: "toggleVIPParam \<Rightarrow> error option" where
  "toggleVIPParam_validate r =
     (if length (toggleVIPParam.SessionID r) \<noteq> 64 then Some ''invalid session id''
      else if toggleVIPParam.ID r = 0 then Some ''invalid VIP id''
      else None)"

section \<open>Collaborators of the handlers\<close>

text \<open>
  Modelled from the spec: the \<open>api\<close> package (the response and its status vocabulary)
  is not in this file. Section 6 of the specification lists the statuses; a response has
  a status, a message and an optional payload.
\<close>

datatype Status =
    StatusOkay
  | StatusInvalidParameter
  | StatusUnknownSession
  | StatusDuplicated
  | StatusNotFound
  | StatusInternalServerError

datatype payload = NoData | VIPData VIP | VIPListData "VIP option list"

record Response =
  Status :: Status
  Message :: string
  Data :: payload

text \<open>
  The store gateway \<open>VIPTransaction\<close>: an interface, so a record of functions over a store
  state \<open>'db\<close> of any type. A \<open>*VIP\<close> is a \<^typ>\<open>VIP option\<close>, \<open>nil\<close> being \<open>None\<close>.
\<close>

record 'db VIPTransaction =
  VIPs :: "Pagination \<Rightarrow> 'db \<Rightarrow> (VIP option list \<times> error option) \<times> 'db"
  AddVIP :: "uint64 \<Rightarrow> uint64 \<Rightarrow> uint64 \<Rightarrow> uint64 \<Rightarrow> string \<Rightarrow> 'db
               \<Rightarrow> ((VIP option \<times> bool) \<times> error option) \<times> 'db"
  RemoveVIP :: "uint64 \<Rightarrow> uint64 \<Rightarrow> 'db \<Rightarrow> (VIP option \<times> error option) \<times> 'db"
  ToggleVIP :: "uint64 \<Rightarrow> uint64 \<Rightarrow> 'db \<Rightarrow> (VIP option \<times> error option) \<times> 'db"

text \<open>
  The receiver \<open>API\<close> with the three fields the handlers use: the session store (its
  \<open>Get\<close>), the database and the announcer.
\<close>

record 'db API =
  session :: "string \<Rightarrow> User option"
  DB :: "'db VIPTransaction"
  announce :: "string \<Rightarrow> string \<Rightarrow> error option"

text \<open>
  Modelled from the spec: \<open>DB.Exec\<close> is not in this file. Sections 4.3 and 6 of the
  specification: the function it is given runs inside one transaction, once; a non-nil
  error aborts the unit (the store is left as it was) and is returned; otherwise the
  unit is committed. The values that the closure assigns to the variables it captured
  are the first component of the result.
\<close>

definition Exec :: "'db VIPTransaction \<Rightarrow> ('db VIPTransaction \<Rightarrow> 'db \<Rightarrow> ('r \<times> error option) \<times> 'db)
    \<Rightarrow> 'db \<Rightarrow> ('r \<times> error option) \<times> 'db" where
  "Exec tx f db =
     (case f tx db of
        ((res, None), db') \<Rightarrow> ((res, None), db')
      | ((res, Some err), db') \<Rightarrow> ((res, Some err), db))"

text \<open>
  Modelled from the spec: \<open>network.NullMAC\<close> is not in this file; it is the zero
  hardware address, printed by \<open>String\<close>.
\<close>

definition NullMAC_String :: string where
  "NullMAC_String = ''00:00:00:00:00:00''"

text \<open>\<open>%v\<close> of an unsigned integer: its decimal digits.\<close>

fun decimal :: "nat \<Rightarrow> string" where
  "decimal n = (if n < 10 then [char_of (48 + n)] else decimal (n div 10) @ [char_of (48 + n mod 10)])"

declare decimal.simps [simp del]

definition Sprintf_uint64 :: "uint64 \<Rightarrow> string" where
  "Sprintf_uint64 v = decimal (unat v)"

text \<open>
  What a handler does, in order: the events of one run. A debug line is recorded by its
  format (the dump of its arguments is not modelled), an error line by its message.
  \<open>DBExec\<close> is one call of \<open>r.DB.Exec\<close> with the gateway call made inside it and the
  error it returned; \<open>Panic\<close> is a run-time panic, which ends the handler.
\<close>

datatype txcall =
    CallVIPs Pagination
  | CallAddVIP uint64 uint64 uint64 uint64 string
  | CallRemoveVIP uint64 uint64
  | CallToggleVIP uint64 uint64

datatype event =
    Debugf string
  | Errorf string
  | SessionGet string
  | DBExec txcall "error option"
  | Announce string string
  | Write Response
  | Panic string

text \<open>
  A request, as \<open>req.DecodeJsonPayload\<close> sees it: either the body cannot be read or
  parsed (\<open>Inl\<close>, with the error), or \<open>json.Unmarshal\<close> fills the anonymous struct of
  \<open>UnmarshalJSON\<close> (\<open>Inr\<close>). \<open>UnmarshalJSON\<close> then validates.
\<close>

type_synonym 'p Request = "error + 'p"

definition listVIPParam_UnmarshalJSON :: "listVIPParam Request \<Rightarrow> error + listVIPParam" where
  "listVIPParam_UnmarshalJSON data =
     (case data of
        Inl err \<Rightarrow> Inl err
      | Inr v \<Rightarrow> (case listVIPParam_validate v of Some err \<Rightarrow> Inl err | None \<Rightarrow> Inr v))"

definition addVIPParam_UnmarshalJSON :: "addVIPParam Request \<Rightarrow> error + addVIPParam" where
  "addVIPParam_UnmarshalJSON data =
     (case data of
        Inl err \<Rightarrow> Inl err
      | Inr v \<Rightarrow> (case addVIPParam_validate v of Some err \<Rightarrow> Inl err | None \<Rightarrow> Inr v))"

definition removeVIPParam_UnmarshalJSON :: "removeVIPParam Request \<Rightarrow> error + removeVIPParam" where
  "removeVIPParam_UnmarshalJSON data =
     (case data of
        Inl err \<Rightarrow> Inl err
      | Inr v \<Rightarrow> (case removeVIPParam_validate v of Some err \<Rightarrow> Inl err | None \<Rightarrow> Inr v))"

definition toggleVIPParam_UnmarshalJSON :: "toggleVIPParam Request \<Rightarrow> error + toggleVIPParam" where
  "toggleVIPParam_UnmarshalJSON data =
     (case data of
        Inl err \<Rightarrow> Inl err
      | Inr v \<Rightarrow> (case toggleVIPParam_validate v of Some err \<Rightarrow> Inl err | None \<Rightarrow> Inr v))"

definition respond :: "Status \<Rightarrow> string \<Rightarrow> payload \<Rightarrow> event" where
  "respond st msg d = Write \<lparr>Status = st, Message = msg, Data = d\<rparr>"

definition announce_events :: "'db API \<Rightarrow> string \<Rightarrow> string \<Rightarrow> event list" where
  "announce_events r ip mac =
     (case announce r ip mac of
        Some err \<Rightarrow> [Announce ip mac, Errorf (''failed to send ARP announcement: '' @ err)]
      | None \<Rightarrow> [Announce ip mac])"

section \<open>The handlers\<close>

definition listVIP :: "'db API \<Rightarrow> listVIPParam Request \<Rightarrow> 'db \<Rightarrow> event list \<times> 'db" where
  "listVIP r req db =
     (case listVIPParam_UnmarshalJSON req of
        Inl err \<Rightarrow>
          ([respond StatusInvalidParameter (''failed to decode param: '' @ err) NoData], db)
      | Inr p \<Rightarrow>
          (case session r (listVIPParam.SessionID p) of
             None \<Rightarrow>
               ([Debugf ''listVIP request from %v: %v'', SessionGet (listVIPParam.SessionID p),
                 respond StatusUnknownSession
                   (''unknown session id: '' @ listVIPParam.SessionID p) NoData], db)
           | Some _ \<Rightarrow>
               (case Exec (DB r) (\<lambda>tx. VIPs tx (listVIPParam.Pagination p)) db of
                  ((vip, Some err), db') \<Rightarrow>
                    ([Debugf ''listVIP request from %v: %v'', SessionGet (listVIPParam.SessionID p),
                      DBExec (CallVIPs (listVIPParam.Pagination p)) (Some err),
                      respond StatusInternalServerError
                        (''failed to query the VIP list: '' @ err) NoData], db')
                | ((vip, None), db') \<Rightarrow>
                    ([Debugf ''listVIP request from %v: %v'', SessionGet (listVIPParam.SessionID p),
                      DBExec (CallVIPs (listVIPParam.Pagination p)) None,
                      Debugf ''queried VIP list: %v'',
                      respond StatusOkay [] (VIPListData vip)], db'))))"

definition addVIP :: "'db API \<Rightarrow> addVIPParam Request \<Rightarrow> 'db \<Rightarrow> event list \<times> 'db" where
  "addVIP r req db =
     (case addVIPParam_UnmarshalJSON req of
        Inl err \<Rightarrow>
          ([respond StatusInvalidParameter (''failed to decode param: '' @ err) NoData], db)
      | Inr p \<Rightarrow>
          (case session r (addVIPParam.SessionID p) of
             None \<Rightarrow>
               ([Debugf ''addVIP request from %v: %v'', SessionGet (addVIPParam.SessionID p),
                 respond StatusUnknownSession
                   (''unknown session id: '' @ addVIPParam.SessionID p) NoData], db)
           | Some user \<Rightarrow>
               (let call = CallAddVIP (User.ID user) (IPID p) (ActiveHostID p) (StandbyHostID p)
                             (addVIPParam.Description p);
                    start = [Debugf ''addVIP request from %v: %v'',
                             SessionGet (addVIPParam.SessionID p)]
                in
                case Exec (DB r) (\<lambda>tx. AddVIP tx (User.ID user) (IPID p) (ActiveHostID p)
                                         (StandbyHostID p) (addVIPParam.Description p)) db of
                  ((res, Some err), db') \<Rightarrow>
                    (start @ [DBExec call (Some err),
                       respond StatusInternalServerError
                         (''failed to add a new VIP: '' @ err) NoData], db')
                | (((vip, True), None), db') \<Rightarrow>
                    (start @ [DBExec call None,
                       respond StatusDuplicated
                         (''duplicated VIP: ip_id='' @ Sprintf_uint64 (IPID p)) NoData], db')
                | (((None, False), None), db') \<Rightarrow>
                    (start @ [DBExec call None, Debugf ''added a new VIP: %v'',
                       Panic ''invalid memory address or nil pointer dereference''], db')
                | (((Some v, False), None), db') \<Rightarrow>
                    (start @ [DBExec call None, Debugf ''added a new VIP: %v'']
                       @ announce_events r (IP v) (MAC (ActiveHost v))
                       @ [respond StatusOkay [] (VIPData v)], db'))))"

definition removeVIP :: "'db API \<Rightarrow> removeVIPParam Request \<Rightarrow> 'db \<Rightarrow> event list \<times> 'db" where
  "removeVIP r req db =
     (case removeVIPParam_UnmarshalJSON req of
        Inl err \<Rightarrow>
          ([respond StatusInvalidParameter (''failed to decode param: '' @ err) NoData], db)
      | Inr p \<Rightarrow>
          (case session r (removeVIPParam.SessionID p) of
             None \<Rightarrow>
               ([Debugf ''removeVIP request from %v: %v'', SessionGet (removeVIPParam.SessionID p),
                 respond StatusUnknownSession
                   (''unknown session id: '' @ removeVIPParam.SessionID p) NoData], db)
           | Some user \<Rightarrow>
               (let call = CallRemoveVIP (User.ID user) (removeVIPParam.ID p);
                    start = [Debugf ''removeVIP request from %v: %v'',
                             SessionGet (removeVIPParam.SessionID p)]
                in
                case Exec (DB r) (\<lambda>tx. RemoveVIP tx (User.ID user) (removeVIPParam.ID p)) db of
                  ((vip, Some err), db') \<Rightarrow>
                    (start @ [DBExec call (Some err),
                       respond StatusInternalServerError
                         (''failed to remove a VIP: '' @ err) NoData], db')
                | ((None, None), db') \<Rightarrow>
                    (start @ [DBExec call None,
                       respond StatusNotFound
                         (''not found VIP to remove: '' @ Sprintf_uint64 (removeVIPParam.ID p))
                         NoData], db')
                | ((Some v, None), db') \<Rightarrow>
                    (start @ [DBExec call None, Debugf ''removed the VIP: %v'']
                       @ announce_events r (IP v) NullMAC_String
                       @ [respond StatusOkay [] NoData], db'))))"

definition toggleVIP :: "'db API \<Rightarrow> toggleVIPParam Request \<Rightarrow> 'db \<Rightarrow> event list \<times> 'db" where
  "toggleVIP r req db =
     (case toggleVIPParam_UnmarshalJSON req of
        Inl err \<Rightarrow>
          ([respond StatusInvalidParameter (''failed to decode param: '' @ err) NoData], db)
      | Inr p \<Rightarrow>
          (case session r (toggleVIPParam.SessionID p) of
             None \<Rightarrow>
               ([Debugf ''toggleVIP request from %v: %v'', SessionGet (toggleVIPParam.SessionID p),
                 respond StatusUnknownSession
                   (''unknown session id: '' @ toggleVIPParam.SessionID p) NoData], db)
           | Some user \<Rightarrow>
               (let call = CallToggleVIP (User.ID user) (toggleVIPParam.ID p);
                    start = [Debugf ''toggleVIP request from %v: %v'',
                             SessionGet (toggleVIPParam.SessionID p)]
                in
                case Exec (DB r) (\<lambda>tx. ToggleVIP tx (User.ID user) (toggleVIPParam.ID p)) db of
                  ((vip, Some err), db') \<Rightarrow>
                    (start @ [DBExec call (Some err),
                       respond StatusInternalServerError
                         (''failed to toggle a VIP: '' @ err) NoData], db')
                | ((None, None), db') \<Rightarrow>
                    (start @ [DBExec call None,
                       respond StatusNotFound
                         (''not found VIP to toggle: '' @ Sprintf_uint64 (toggleVIPParam.ID p))
                         NoData], db')
                | ((Some v, None), db') \<Rightarrow>
                    (start @ [DBExec call None, Debugf ''toggled the VIP: %v'']
                       @ announce_events r (IP v) (MAC (ActiveHost v))
                       @ [respond StatusOkay [] NoData], db'))))"

section \<open>The store behind the gateway\<close>

text \<open>
  Modelled from the spec: the implementation of the gateway's \<open>ToggleVIP\<close> is not in this
  file; only the interface and its comment are ("ToggleVIP swaps active host and standby
  host of a VIP specified by id and then returns information of the VIP. It returns nil
  if the VIP does not exist."). Section 4.3 of the specification: the swap is atomic, the
  record returned is the one after the swap, and neither the id nor the ip changes. The
  store is a map from VIP ids to records.
\<close>

type_synonym store = "uint64 \<rightharpoonup> VIP"

definition swap_roles :: "VIP \<Rightarrow> VIP" where
  "swap_roles v = v\<lparr>ActiveHost := StandbyHost v, StandbyHost := ActiveHost v\<rparr>"

definition store_ToggleVIP :: "uint64 \<Rightarrow> uint64 \<Rightarrow> store \<Rightarrow> (VIP option \<times> error option) \<times> store" where
  "store_ToggleVIP requesterID vipID st =
     (case st vipID of
        None \<Rightarrow> ((None, None), st)
      | Some v \<Rightarrow> ((Some (swap_roles v), None), st(vipID \<mapsto> swap_roles v)))"

text \<open>
  Modelled from the spec: the implementation of the gateway's \<open>RemoveVIP\<close> is not in this
  file; only the interface and its comment are ("RemoveVIP removes a VIP specified by id
  and then returns information of the VIP before removing. It returns nil if the VIP does
  not exist.").
\<close>

definition store_RemoveVIP :: "uint64 \<Rightarrow> uint64 \<Rightarrow> store \<Rightarrow> (VIP option \<times> error option) \<times> store" where
  "store_RemoveVIP requesterID vipID st =
     (case st vipID of
        None \<Rightarrow> ((None, None), st)
      | Some v \<Rightarrow> ((Some v, None), st(vipID := None)))"

section \<open>Reading a run\<close>

fun announcements :: "event list \<Rightarrow> (string \<times> string) list" where
  "announcements [] = []"
| "announcements (Announce ip mac # es) = (ip, mac) # announcements es"
| "announcements (_ # es) = announcements es"

fun responses :: "event list \<Rightarrow> Response list" where
  "responses [] = []"
| "responses (Write resp # es) = resp # responses es"
| "responses (_ # es) = responses es"

fun transactions :: "event list \<Rightarrow> txcall list" where
  "transactions [] = []"
| "transactions (DBExec c err # es) = c # transactions es"
| "transactions (_ # es) = transactions es"

fun lookups :: "event list \<Rightarrow> string list" where
  "lookups [] = []"
| "lookups (SessionGet t # es) = t # lookups es"
| "lookups (_ # es) = lookups es"

fun panics :: "event list \<Rightarrow> string list" where
  "panics [] = []"
| "panics (Panic m # es) = m # panics es"
| "panics (_ # es) = panics es"

fun error_lines :: "event list \<Rightarrow> string list" where
  "error_lines [] = []"
| "error_lines (Errorf m # es) = m # error_lines es"
| "error_lines (_ # es) = error_lines es"

fun is_DBExec :: "event \<Rightarrow> bool" where
  "is_DBExec (DBExec c err) = True"
| "is_DBExec _ = False"

text \<open>The part of a run that precedes the completion of its first transaction.\<close>

definition before_transaction :: "event list \<Rightarrow> event list" where
  "before_transaction es = takeWhile (\<lambda>e. \<not> is_DBExec e) es"

text \<open>A run that is refused at the parameters: nothing but the invalid-parameter response.\<close>

definition rejected_before_lookup :: "event list \<Rightarrow> bool" where
  "rejected_before_lookup es \<longleftrightarrow>
     map Status (responses es) = [StatusInvalidParameter] \<and> lookups es = [] \<and> transactions es = []"

section \<open>A small installation, for the examples\<close>

text \<open>
  One session, two hosts and a gateway over the store above. Its \<open>AddVIP\<close> creates the
  record \<open>demo_vip\<close> under id 5 and reports a duplicate when that record exists; its
  \<open>VIPs\<close> returns what is stored under id 5.
\<close>

definition demo_token :: string where
  "demo_token = replicate 64 CHR ''a''"

definition demo_active :: Host where
  "demo_active = \<lparr>Host.ID = 1, MAC = ''52:54:00:00:00:01''\<rparr>"

definition demo_standby :: Host where
  "demo_standby = \<lparr>Host.ID = 2, MAC = ''52:54:00:00:00:02''\<rparr>"

definition demo_vip :: VIP where
  "demo_vip = \<lparr>VIP.ID = 5, IP = ''10.0.0.7'', ActiveHost = demo_active,
     StandbyHost = demo_standby, Description = ''primary''\<rparr>"

definition demo_gateway :: "store VIPTransaction" where
  "demo_gateway =
     \<lparr>VIPs = (\<lambda>pg st. ((case st 5 of None \<Rightarrow> [] | Some v \<Rightarrow> [Some v], None), st)),
      AddVIP = (\<lambda>requesterID ipID activeID standbyID desc st.
         case st 5 of
           None \<Rightarrow> (((Some demo_vip, False), None), st(5 \<mapsto> demo_vip))
         | Some v \<Rightarrow> (((None, True), None), st)),
      RemoveVIP = store_RemoveVIP,
      ToggleVIP = store_ToggleVIP\<rparr>"

definition demo_api :: "store API" where
  "demo_api =
     \<lparr>session = (\<lambda>t. if t = demo_token then Some \<lparr>User.ID = 9\<rparr> else None),
      DB = demo_gateway,
      announce = (\<lambda>ip mac. None)\<rparr>"

definition demo_list :: listVIPParam where
  "demo_list = \<lparr>listVIPParam.SessionID = demo_token, Pagination = \<lparr>Offset = 0, Limit = 10\<rparr>\<rparr>"

definition demo_add :: addVIPParam where
  "demo_add = \<lparr>addVIPParam.SessionID = demo_token, IPID = 7, ActiveHostID = 1,
     StandbyHostID = 2, Description = ''primary''\<rparr>"

definition demo_remove :: removeVIPParam where
  "demo_remove = \<lparr>removeVIPParam.SessionID = demo_token, ID = 5\<rparr>"

definition demo_toggle :: toggleVIPParam where
  "demo_toggle = \<lparr>toggleVIPParam.SessionID = demo_token, ID = 5\<rparr>"

text \<open>
  A second token of the right length; the store once \<open>demo_vip\<close> is created; an
  installation whose announcer fails, one whose \<open>AddVIP\<close> returns no record, no duplicate
  and no error, and one with two sessions; descriptions of 256 two-byte and of 255
  four-byte code points.
\<close>

definition demo_unknown :: string where
  "demo_unknown = replicate 64 CHR ''b''"

definition demo_store :: store where
  "demo_store = Map.empty(5 \<mapsto> demo_vip)"

definition demo_api_unreachable :: "store API" where
  "demo_api_unreachable = demo_api\<lparr>announce := (\<lambda>ip mac. Some ''network is unreachable'')\<rparr>"

definition demo_api_nil :: "store API" where
  "demo_api_nil =
     demo_api\<lparr>DB := demo_gateway\<lparr>AddVIP :=
       (\<lambda>requesterID ipID activeID standbyID desc st. (((None, False), None), st))\<rparr>\<rparr>"

definition demo_api_two :: "store API" where
  "demo_api_two =
     demo_api\<lparr>session :=
       (\<lambda>t. if t = demo_token then Some \<lparr>User.ID = 9\<rparr>
            else if t = demo_unknown then Some \<lparr>User.ID = 10\<rparr>
            else None)\<rparr>"

definition demo_list_other :: listVIPParam where
  "demo_list_other = demo_list\<lparr>listVIPParam.SessionID := demo_unknown\<rparr>"

definition demo_add_256 :: addVIPParam where
  "demo_add_256 = demo_add\<lparr>addVIPParam.Description := utf8_string (replicate 256 0xE9)\<rparr>"

definition demo_add_255 :: addVIPParam where
  "demo_add_255 = demo_add\<lparr>addVIPParam.Description := utf8_string (replicate 255 0x1F600)\<rparr>"

section \<open>Counting the runes of a UTF-8 string\<close>

lemma byte_char_of: "n < 256 \<Longrightarrow> byte (char_of n) = n"
  by (simp add: byte_def)

lemma nth_drop_0: "drop i s = a # rest \<Longrightarrow> s ! i = a \<and> i < length s"
proof -
  assume h: "drop i s = a # rest"
  have l: "i < length s"
  proof (rule ccontr)
    assume "\<not> i < length s"
    then have "drop i s = []" by simp
    with h show False by simp
  qed
  have "hd (drop i s) = s ! i" using l by (simp add: hd_drop_conv_nth)
  with h l show ?thesis by simp
qed

lemma step_ascii: "i < length s \<Longrightarrow> byte (s ! i) < 0x80 \<Longrightarrow> rune_step s i = 1"
  by (simp add: rune_step_def RuneSelf_def)

lemma step_two:
  assumes "Suc i < length s" "0xC2 \<le> byte (s ! i)" "byte (s ! i) < 0xE0"
    "0x80 \<le> byte (s ! Suc i)" "byte (s ! Suc i) \<le> 0xBF"
  shows "rune_step s i = 2"
proof -
  have f: "first (byte (s ! i)) = s1" using assms(2,3) by (simp add: first_def)
  show ?thesis
    using assms
    by (simp add: rune_step_def RuneSelf_def f s1_def xx_def acceptRanges_def locb_def hicb_def)
qed


lemma step_three:
  assumes "Suc (Suc i) < length s" "0xE0 \<le> byte (s ! i)" "byte (s ! i) < 0xF0"
    "0x80 \<le> byte (s ! Suc i)" "byte (s ! Suc i) \<le> 0xBF"
    "byte (s ! i) = 0xE0 \<Longrightarrow> 0xA0 \<le> byte (s ! Suc i)"
    "byte (s ! i) = 0xED \<Longrightarrow> byte (s ! Suc i) \<le> 0x9F"
    "0x80 \<le> byte (s ! Suc (Suc i))" "byte (s ! Suc (Suc i)) \<le> 0xBF"
  shows "rune_step s i = 3"
proof -
  have e3: "i + 3 = Suc (Suc (Suc i))" by simp
  consider (a) "byte (s ! i) = 0xE0" | (b) "byte (s ! i) = 0xED"
    | (c) "byte (s ! i) \<noteq> 0xE0" "byte (s ! i) \<noteq> 0xED"
    by blast
  then show ?thesis
  proof cases
    case a
    have f: "first 0xE0 = s2" by (simp add: first_def)
    show ?thesis
      using assms a
      by (simp add: rune_step_def RuneSelf_def f s2_def xx_def acceptRanges_def locb_def hicb_def e3)
  next
    case b
    have f: "first 0xED = s4" by (simp add: first_def)
    show ?thesis
      using assms b
      by (simp add: rune_step_def RuneSelf_def f s4_def xx_def acceptRanges_def locb_def hicb_def e3)
  next
    case c
    then have f: "first (byte (s ! i)) = s3" using assms(2,3) by (simp add: first_def)
    show ?thesis
      using assms(1-5,8,9)
      by (simp add: rune_step_def RuneSelf_def f s3_def xx_def acceptRanges_def locb_def hicb_def e3)
  qed
qed

lemma step_four:
  assumes "Suc (Suc (Suc i)) < length s" "0xF0 \<le> byte (s ! i)" "byte (s ! i) \<le> 0xF4"
    "0x80 \<le> byte (s ! Suc i)" "byte (s ! Suc i) \<le> 0xBF"
    "byte (s ! i) = 0xF0 \<Longrightarrow> 0x90 \<le> byte (s ! Suc i)"
    "byte (s ! i) = 0xF4 \<Longrightarrow> byte (s ! Suc i) \<le> 0x8F"
    "0x80 \<le> byte (s ! Suc (Suc i))" "byte (s ! Suc (Suc i)) \<le> 0xBF"
    "0x80 \<le> byte (s ! Suc (Suc (Suc i)))" "byte (s ! Suc (Suc (Suc i))) \<le> 0xBF"
  shows "rune_step s i = 4"
proof -
  have e3: "i + 3 = Suc (Suc (Suc i))" by simp
  consider (a) "byte (s ! i) = 0xF0" | (b) "byte (s ! i) = 0xF4"
    | (c) "byte (s ! i) \<noteq> 0xF0" "byte (s ! i) \<noteq> 0xF4"
    by blast
  then show ?thesis
  proof cases
    case a
    have f: "first 0xF0 = s5" by (simp add: first_def)
    show ?thesis
      using assms a
      by (simp add: rune_step_def RuneSelf_def f s5_def xx_def acceptRanges_def locb_def hicb_def e3)
  next
    case b
    have f: "first 0xF4 = s7" by (simp add: first_def)
    show ?thesis
      using assms b
      by (simp add: rune_step_def RuneSelf_def f s7_def xx_def acceptRanges_def locb_def hicb_def e3)
  next
    case c
    then have f: "first (byte (s ! i)) = s6" using assms(2,3) by (simp add: first_def)
    show ?thesis
      using assms(1-5,8-11)
      by (simp add: rune_step_def RuneSelf_def f s6_def xx_def acceptRanges_def locb_def hicb_def e3)
  qed
qed


lemma drop_Suc_tl: "drop i s = a # rest \<Longrightarrow> drop (Suc i) s = rest"
  by (simp add: drop_Suc tl_drop [symmetric])

lemma enc1:
  assumes "r \<le> 0x7F" "drop i s = EncodeRune r @ rest"
  shows "rune_step s i = 1 \<and> i < length s \<and> drop (i + 1) s = rest"
proof -
  have d: "drop i s = char_of r # rest" using assms by (simp add: EncodeRune_def)
  have b: "byte (char_of r) = r" using assms(1) by (simp add: byte_char_of)
  from nth_drop_0 [OF d] b assms(1) have "rune_step s i = 1"
    by (simp add: step_ascii)
  with nth_drop_0 [OF d] drop_Suc_tl [OF d] show ?thesis by simp
qed

lemma digits2:
  fixes r :: nat
  obtains a b where "r = 64 * a + b" "b < 64" "r div 64 = a" "r mod 64 = b"
proof
  show "r = 64 * (r div 64) + r mod 64" by simp
  show "r mod 64 < 64" by simp
qed simp_all

lemma digits3:
  fixes r :: nat
  obtains a b c where "r = 4096 * a + 64 * b + c" "b < 64" "c < 64"
    "r div 4096 = a" "r div 64 mod 64 = b" "r mod 64 = c"
proof
  have "r = 64 * (r div 64) + r mod 64" by simp
  moreover have "r div 64 = 64 * (r div 64 div 64) + r div 64 mod 64" by simp
  ultimately show "r = 4096 * (r div 64 div 64) + 64 * (r div 64 mod 64) + r mod 64" by linarith
  show "r div 4096 = r div 64 div 64" using div_mult2_eq [of r 64 64] by simp
qed simp_all

lemma digits4:
  fixes r :: nat
  obtains a b c d where "r = 262144 * a + 4096 * b + 64 * c + d" "b < 64" "c < 64" "d < 64"
    "r div 262144 = a" "r div 4096 mod 64 = b" "r div 64 mod 64 = c" "r mod 64 = d"
proof
  have e1: "r = 64 * (r div 64) + r mod 64" by simp
  have e2: "r div 64 = 64 * (r div 64 div 64) + r div 64 mod 64" by simp
  have e3: "r div 64 div 64 = 64 * (r div 64 div 64 div 64) + r div 64 div 64 mod 64" by simp
  show "r = 262144 * (r div 64 div 64 div 64) + 4096 * (r div 64 div 64 mod 64)
          + 64 * (r div 64 mod 64) + r mod 64"
    using e1 e2 e3 by linarith
  have d2: "r div 4096 = r div 64 div 64" using div_mult2_eq [of r 64 64] by simp
  show "r div 4096 mod 64 = r div 64 div 64 mod 64" by (simp only: d2)
  show "r div 262144 = r div 64 div 64 div 64"
    using div_mult2_eq [of r 4096 64] by (simp add: d2)
qed simp_all


lemma enc2:
  assumes "0x7F < r" "r \<le> 0x7FF" "drop i s = EncodeRune r @ rest"
  shows "rune_step s i = 2 \<and> i + 1 < length s \<and> drop (i + 2) s = rest"
proof -
  obtain a b where g: "r = 64 * a + b" "b < 64" "r div 64 = a" "r mod 64 = b"
    by (rule digits2)
  define b0 where "b0 = 0xC0 + a"
  define b1 where "b1 = 0x80 + b"
  have d0: "drop i s = char_of b0 # char_of b1 # rest"
    using assms by (simp add: EncodeRune_def b0_def b1_def g(3,4))
  have d1: "drop (Suc i) s = char_of b1 # rest" by (rule drop_Suc_tl [OF d0])
  have d2: "drop (Suc (Suc i)) s = rest" by (rule drop_Suc_tl [OF d1])
  have r0: "0xC2 \<le> b0" "b0 < 0xE0" using assms(1,2) g(1,2) unfolding b0_def by linarith+
  have r1: "0x80 \<le> b1" "b1 \<le> 0xBF" using g(2) unfolding b1_def by linarith+
  have n0: "byte (s ! i) = b0" using nth_drop_0 [OF d0] r0 by (simp add: byte_char_of)
  have n1: "byte (s ! Suc i) = b1" "Suc i < length s"
    using nth_drop_0 [OF d1] r1 by (simp_all add: byte_char_of)
  have "rune_step s i = 2"
    by (rule step_two) (simp_all add: n0 n1 r0 r1)
  with n1 d2 show ?thesis by simp
qed

lemma enc3:
  assumes "0x7FF < r" "r \<le> 0xFFFF" "\<not> (0xD800 \<le> r \<and> r \<le> 0xDFFF)"
    "drop i s = EncodeRune r @ rest"
  shows "rune_step s i = 3 \<and> i + 2 < length s \<and> drop (i + 3) s = rest"
proof -
  obtain a b c where g: "r = 4096 * a + 64 * b + c" "b < 64" "c < 64"
    "r div 4096 = a" "r div 64 mod 64 = b" "r mod 64 = c"
    by (rule digits3)
  define b0 where "b0 = 0xE0 + a"
  define b1 where "b1 = 0x80 + b"
  define b2 where "b2 = 0x80 + c"
  have d0: "drop i s = char_of b0 # char_of b1 # char_of b2 # rest"
    using assms by (simp add: EncodeRune_def b0_def b1_def b2_def g(4,5,6))
  have d1: "drop (Suc i) s = char_of b1 # char_of b2 # rest" by (rule drop_Suc_tl [OF d0])
  have d2: "drop (Suc (Suc i)) s = char_of b2 # rest" by (rule drop_Suc_tl [OF d1])
  have d3: "drop (Suc (Suc (Suc i))) s = rest" by (rule drop_Suc_tl [OF d2])
  have r0: "0xE0 \<le> b0" "b0 < 0xF0" using assms(2) g(1) unfolding b0_def by linarith+
  have r1: "0x80 \<le> b1" "b1 \<le> 0xBF" using g(2) unfolding b1_def by linarith+
  have r2: "0x80 \<le> b2" "b2 \<le> 0xBF" using g(3) unfolding b2_def by linarith+
  have lo: "0xA0 \<le> b1" if "b0 = 0xE0"
    using that assms(1) g(1,3) unfolding b0_def b1_def by linarith
  have hi: "b1 \<le> 0x9F" if "b0 = 0xED"
    using that assms(2,3) g(1,2,3) unfolding b0_def b1_def by linarith
  have n0: "byte (s ! i) = b0" using nth_drop_0 [OF d0] r0 by (simp add: byte_char_of)
  have n1: "byte (s ! Suc i) = b1"
    using nth_drop_0 [OF d1] r1 by (simp_all add: byte_char_of)
  have n2: "byte (s ! Suc (Suc i)) = b2" "Suc (Suc i) < length s"
    using nth_drop_0 [OF d2] r2 by (simp_all add: byte_char_of)
  have "rune_step s i = 3"
    by (rule step_three) (simp_all add: n0 n1 n2 r0 r1 r2 lo hi)
  moreover have e: "i + 3 = Suc (Suc (Suc i))" by simp
  ultimately show ?thesis using n2 d3 by (simp add: e)
qed

lemma enc4:
  assumes "0xFFFF < r" "r \<le> 0x10FFFF" "drop i s = EncodeRune r @ rest"
  shows "rune_step s i = 4 \<and> i + 3 < length s \<and> drop (i + 4) s = rest"
proof -
  obtain a b c d where g: "r = 262144 * a + 4096 * b + 64 * c + d" "b < 64" "c < 64" "d < 64"
    "r div 262144 = a" "r div 4096 mod 64 = b" "r div 64 mod 64 = c" "r mod 64 = d"
    by (rule digits4)
  define b0 where "b0 = 0xF0 + a"
  define b1 where "b1 = 0x80 + b"
  define b2 where "b2 = 0x80 + c"
  define b3 where "b3 = 0x80 + d"
  have d0: "drop i s = char_of b0 # char_of b1 # char_of b2 # char_of b3 # rest"
    using assms by (simp add: EncodeRune_def b0_def b1_def b2_def b3_def g(5,6,7,8))
  have d1: "drop (Suc i) s = char_of b1 # char_of b2 # char_of b3 # rest"
    by (rule drop_Suc_tl [OF d0])
  have d2: "drop (Suc (Suc i)) s = char_of b2 # char_of b3 # rest" by (rule drop_Suc_tl [OF d1])
  have d3: "drop (Suc (Suc (Suc i))) s = char_of b3 # rest" by (rule drop_Suc_tl [OF d2])
  have d4: "drop (Suc (Suc (Suc (Suc i)))) s = rest" by (rule drop_Suc_tl [OF d3])
  have r0: "0xF0 \<le> b0" "b0 \<le> 0xF4" using assms(2) g(1) unfolding b0_def by linarith+
  have r1: "0x80 \<le> b1" "b1 \<le> 0xBF" using g(2) unfolding b1_def by linarith+
  have r2: "0x80 \<le> b2" "b2 \<le> 0xBF" using g(3) unfolding b2_def by linarith+
  have r3: "0x80 \<le> b3" "b3 \<le> 0xBF" using g(4) unfolding b3_def by linarith+
  have lo: "0x90 \<le> b1" if "b0 = 0xF0"
    using that assms(1) g(1,3,4) unfolding b0_def b1_def by linarith
  have hi: "b1 \<le> 0x8F" if "b0 = 0xF4"
    using that assms(2) g(1) unfolding b0_def b1_def by linarith
  have n0: "byte (s ! i) = b0" using nth_drop_0 [OF d0] r0 by (simp add: byte_char_of)
  have n1: "byte (s ! Suc i) = b1"
    using nth_drop_0 [OF d1] r1 by (simp_all add: byte_char_of)
  have n2: "byte (s ! Suc (Suc i)) = b2"
    using nth_drop_0 [OF d2] r2 by (simp_all add: byte_char_of)
  have n3: "byte (s ! Suc (Suc (Suc i))) = b3" "Suc (Suc (Suc i)) < length s"
    using nth_drop_0 [OF d3] r3 by (simp_all add: byte_char_of)
  have "rune_step s i = 4"
    by (rule step_four) (simp_all add: n0 n1 n2 n3 r0 r1 r2 r3 lo hi)
  moreover have e: "i + 3 = Suc (Suc (Suc i))" "i + 4 = Suc (Suc (Suc (Suc i)))" by simp_all
  ultimately show ?thesis using n3 d4 by (simp add: e)
qed


lemma valid_rune_step:
  assumes "valid_rune r" "drop i s = EncodeRune r @ rest"
  shows "i < length s \<and> drop (i + rune_step s i) s = rest"
proof -
  consider (a) "r \<le> 0x7F" | (b) "0x7F < r" "r \<le> 0x7FF" | (c) "0x7FF < r" "r \<le> 0xFFFF"
    | (d) "0xFFFF < r"
    by linarith
  then show ?thesis
  proof cases
    case a
    from enc1 [OF a assms(2)] show ?thesis by simp
  next
    case b
    from enc2 [OF b assms(2)] show ?thesis by simp
  next
    case c
    from enc3 [OF c _ assms(2)] assms(1) show ?thesis by (simp add: valid_rune_def)
  next
    case d
    from enc4 [OF d _ assms(2)] assms(1) show ?thesis by (simp add: valid_rune_def)
  qed
qed

lemma loop_utf8_string:
  "list_all valid_rune cps \<Longrightarrow> drop i s = utf8_string cps
     \<Longrightarrow> RuneCountInString_loop s i n = n + length cps"
proof (induction cps arbitrary: i n)
  case Nil
  then have "\<not> i < length s" by (simp add: utf8_string_def)
  then show ?case by simp
next
  case (Cons r cps)
  have d: "drop i s = EncodeRune r @ utf8_string cps"
    using Cons.prems(2) by (simp add: utf8_string_def)
  have v: "valid_rune r" "list_all valid_rune cps" using Cons.prems(1) by simp_all
  from valid_rune_step [OF v(1) d]
  have l: "i < length s" and r: "drop (i + rune_step s i) s = utf8_string cps" by simp_all
  have "RuneCountInString_loop s i n = RuneCountInString_loop s (i + rune_step s i) (n + 1)"
    using l by simp
  also have "\<dots> = n + 1 + length cps" by (rule Cons.IH [OF v(2) r])
  finally show ?case by simp
qed

lemma RuneCountInString_utf8_string:
  "list_all valid_rune cps \<Longrightarrow> RuneCountInString (utf8_string cps) = length cps"
  using loop_utf8_string [of cps 0 "utf8_string cps" 0] by (simp add: RuneCountInString_def)

section \<open>The runs of the handlers, path by path\<close>

lemma announcements_append: "announcements (xs @ ys) = announcements xs @ announcements ys"
  by (induction xs rule: announcements.induct) simp_all

lemma responses_append: "responses (xs @ ys) = responses xs @ responses ys"
  by (induction xs rule: responses.induct) simp_all

lemma error_lines_append: "error_lines (xs @ ys) = error_lines xs @ error_lines ys"
  by (induction xs rule: error_lines.induct) simp_all

lemma announcements_announce_events: "announcements (announce_events r ip mac) = [(ip, mac)]"
  by (simp add: announce_events_def split: option.split)

lemma responses_announce_events: "responses (announce_events r ip mac) = []"
  by (simp add: announce_events_def split: option.split)

lemma transactions_announce_events: "transactions (announce_events r ip mac) = []"
  by (simp add: announce_events_def split: option.split)

lemma panics_announce_events: "panics (announce_events r ip mac) = []"
  by (simp add: announce_events_def split: option.split)

lemma listVIP_invalid:
  "listVIPParam_UnmarshalJSON req = Inl err \<Longrightarrow>
   listVIP r req db = ([respond StatusInvalidParameter (''failed to decode param: '' @ err) NoData], db)"
  by (simp add: listVIP_def)

lemma addVIP_invalid:
  "addVIPParam_UnmarshalJSON req = Inl err \<Longrightarrow>
   addVIP r req db = ([respond StatusInvalidParameter (''failed to decode param: '' @ err) NoData], db)"
  by (simp add: addVIP_def)

lemma removeVIP_invalid:
  "removeVIPParam_UnmarshalJSON req = Inl err \<Longrightarrow>
   removeVIP r req db = ([respond StatusInvalidParameter (''failed to decode param: '' @ err) NoData], db)"
  by (simp add: removeVIP_def)

lemma toggleVIP_invalid:
  "toggleVIPParam_UnmarshalJSON req = Inl err \<Longrightarrow>
   toggleVIP r req db = ([respond StatusInvalidParameter (''failed to decode param: '' @ err) NoData], db)"
  by (simp add: toggleVIP_def)

lemma listVIP_unknown:
  "listVIPParam_UnmarshalJSON req = Inr p \<Longrightarrow> session r (listVIPParam.SessionID p) = None \<Longrightarrow>
   listVIP r req db =
     ([Debugf ''listVIP request from %v: %v'', SessionGet (listVIPParam.SessionID p),
       respond StatusUnknownSession (''unknown session id: '' @ listVIPParam.SessionID p) NoData], db)"
  by (simp add: listVIP_def)

lemma addVIP_unknown:
  "addVIPParam_UnmarshalJSON req = Inr p \<Longrightarrow> session r (addVIPParam.SessionID p) = None \<Longrightarrow>
   addVIP r req db =
     ([Debugf ''addVIP request from %v: %v'', SessionGet (addVIPParam.SessionID p),
       respond StatusUnknownSession (''unknown session id: '' @ addVIPParam.SessionID p) NoData], db)"
  by (simp add: addVIP_def)

lemma removeVIP_unknown:
  "removeVIPParam_UnmarshalJSON req = Inr p \<Longrightarrow> session r (removeVIPParam.SessionID p) = None \<Longrightarrow>
   removeVIP r req db =
     ([Debugf ''removeVIP request from %v: %v'', SessionGet (removeVIPParam.SessionID p),
       respond StatusUnknownSession (''unknown session id: '' @ removeVIPParam.SessionID p) NoData], db)"
  by (simp add: removeVIP_def)

lemma toggleVIP_unknown:
  "toggleVIPParam_UnmarshalJSON req = Inr p \<Longrightarrow> session r (toggleVIPParam.SessionID p) = None \<Longrightarrow>
   toggleVIP r req db =
     ([Debugf ''toggleVIP request from %v: %v'', SessionGet (toggleVIPParam.SessionID p),
       respond StatusUnknownSession (''unknown session id: '' @ toggleVIPParam.SessionID p) NoData], db)"
  by (simp add: toggleVIP_def)

lemma addVIP_created:
  assumes "addVIPParam_UnmarshalJSON req = Inr p" "session r (addVIPParam.SessionID p) = Some u"
    "AddVIP (DB r) (User.ID u) (IPID p) (ActiveHostID p) (StandbyHostID p)
       (addVIPParam.Description p) db = (((Some v, False), None), db')"
  shows "addVIP r req db =
     ([Debugf ''addVIP request from %v: %v'', SessionGet (addVIPParam.SessionID p),
       DBExec (CallAddVIP (User.ID u) (IPID p) (ActiveHostID p) (StandbyHostID p)
                 (addVIPParam.Description p)) None,
       Debugf ''added a new VIP: %v'']
      @ announce_events r (IP v) (MAC (ActiveHost v))
      @ [respond StatusOkay [] (VIPData v)], db')"
  using assms by (simp add: addVIP_def Exec_def Let_def split: option.split bool.split)

lemma addVIP_nil:
  assumes "addVIPParam_UnmarshalJSON req = Inr p" "session r (addVIPParam.SessionID p) = Some u"
    "AddVIP (DB r) (User.ID u) (IPID p) (ActiveHostID p) (StandbyHostID p)
       (addVIPParam.Description p) db = (((None, False), None), db')"
  shows "addVIP r req db =
     ([Debugf ''addVIP request from %v: %v'', SessionGet (addVIPParam.SessionID p),
       DBExec (CallAddVIP (User.ID u) (IPID p) (ActiveHostID p) (StandbyHostID p)
                 (addVIPParam.Description p)) None,
       Debugf ''added a new VIP: %v'',
       Panic ''invalid memory address or nil pointer dereference''], db')"
  using assms by (simp add: addVIP_def Exec_def Let_def split: option.split bool.split)

lemma addVIP_duplicated:
  assumes "addVIPParam_UnmarshalJSON req = Inr p" "session r (addVIPParam.SessionID p) = Some u"
    "AddVIP (DB r) (User.ID u) (IPID p) (ActiveHostID p) (StandbyHostID p)
       (addVIPParam.Description p) db = (((vip, True), None), db')"
  shows "addVIP r req db =
     ([Debugf ''addVIP request from %v: %v'', SessionGet (addVIPParam.SessionID p),
       DBExec (CallAddVIP (User.ID u) (IPID p) (ActiveHostID p) (StandbyHostID p)
                 (addVIPParam.Description p)) None,
       respond StatusDuplicated (''duplicated VIP: ip_id='' @ Sprintf_uint64 (IPID p)) NoData], db')"
  using assms by (simp add: addVIP_def Exec_def Let_def split: option.split bool.split)

lemma addVIP_failed:
  assumes "addVIPParam_UnmarshalJSON req = Inr p" "session r (addVIPParam.SessionID p) = Some u"
    "AddVIP (DB r) (User.ID u) (IPID p) (ActiveHostID p) (StandbyHostID p)
       (addVIPParam.Description p) db = ((res, Some err), db')"
  shows "addVIP r req db =
     ([Debugf ''addVIP request from %v: %v'', SessionGet (addVIPParam.SessionID p),
       DBExec (CallAddVIP (User.ID u) (IPID p) (ActiveHostID p) (StandbyHostID p)
                 (addVIPParam.Description p)) (Some err),
       respond StatusInternalServerError (''failed to add a new VIP: '' @ err) NoData], db)"
  using assms by (cases res) (simp add: addVIP_def Exec_def Let_def split: option.split bool.split)

lemma removeVIP_removed:
  assumes "removeVIPParam_UnmarshalJSON req = Inr p" "session r (removeVIPParam.SessionID p) = Some u"
    "RemoveVIP (DB r) (User.ID u) (removeVIPParam.ID p) db = ((Some v, None), db')"
  shows "removeVIP r req db =
     ([Debugf ''removeVIP request from %v: %v'', SessionGet (removeVIPParam.SessionID p),
       DBExec (CallRemoveVIP (User.ID u) (removeVIPParam.ID p)) None,
       Debugf ''removed the VIP: %v'']
      @ announce_events r (IP v) NullMAC_String
      @ [respond StatusOkay [] NoData], db')"
  using assms by (simp add: removeVIP_def Exec_def)

lemma removeVIP_absent:
  assumes "removeVIPParam_UnmarshalJSON req = Inr p" "session r (removeVIPParam.SessionID p) = Some u"
    "RemoveVIP (DB r) (User.ID u) (removeVIPParam.ID p) db = ((None, None), db')"
  shows "removeVIP r req db =
     ([Debugf ''removeVIP request from %v: %v'', SessionGet (removeVIPParam.SessionID p),
       DBExec (CallRemoveVIP (User.ID u) (removeVIPParam.ID p)) None,
       respond StatusNotFound
         (''not found VIP to remove: '' @ Sprintf_uint64 (removeVIPParam.ID p)) NoData], db')"
  using assms by (simp add: removeVIP_def Exec_def)

lemma toggleVIP_toggled:
  assumes "toggleVIPParam_UnmarshalJSON req = Inr p" "session r (toggleVIPParam.SessionID p) = Some u"
    "ToggleVIP (DB r) (User.ID u) (toggleVIPParam.ID p) db = ((Some v, None), db')"
  shows "toggleVIP r req db =
     ([Debugf ''toggleVIP request from %v: %v'', SessionGet (toggleVIPParam.SessionID p),
       DBExec (CallToggleVIP (User.ID u) (toggleVIPParam.ID p)) None,
       Debugf ''toggled the VIP: %v'']
      @ announce_events r (IP v) (MAC (ActiveHost v))
      @ [respond StatusOkay [] NoData], db')"
  using assms by (simp add: toggleVIP_def Exec_def)

lemma toggleVIP_absent:
  assumes "toggleVIPParam_UnmarshalJSON req = Inr p" "session r (toggleVIPParam.SessionID p) = Some u"
    "ToggleVIP (DB r) (User.ID u) (toggleVIPParam.ID p) db = ((None, None), db')"
  shows "toggleVIP r req db =
     ([Debugf ''toggleVIP request from %v: %v'', SessionGet (toggleVIPParam.SessionID p),
       DBExec (CallToggleVIP (User.ID u) (toggleVIPParam.ID p)) None,
       respond StatusNotFound
         (''not found VIP to toggle: '' @ Sprintf_uint64 (toggleVIPParam.ID p)) NoData], db')"
  using assms by (simp add: toggleVIP_def Exec_def)

lemma listVIP_listed:
  assumes "listVIPParam_UnmarshalJSON req = Inr p" "session r (listVIPParam.SessionID p) = Some u"
    "VIPs (DB r) (listVIPParam.Pagination p) db = ((vip, None), db')"
  shows "listVIP r req db =
     ([Debugf ''listVIP request from %v: %v'', SessionGet (listVIPParam.SessionID p),
       DBExec (CallVIPs (listVIPParam.Pagination p)) None,
       Debugf ''queried VIP list: %v'',
       respond StatusOkay [] (VIPListData vip)], db')"
  using assms by (simp add: listVIP_def Exec_def)

lemma listVIP_failed:
  assumes "listVIPParam_UnmarshalJSON req = Inr p" "session r (listVIPParam.SessionID p) = Some u"
    "VIPs (DB r) (listVIPParam.Pagination p) db = ((vip, Some err), db')"
  shows "listVIP r req db =
     ([Debugf ''listVIP request from %v: %v'', SessionGet (listVIPParam.SessionID p),
       DBExec (CallVIPs (listVIPParam.Pagination p)) (Some err),
       respond StatusInternalServerError (''failed to query the VIP list: '' @ err) NoData], db)"
  using assms by (simp add: listVIP_def Exec_def)

lemma transactions_append: "transactions (xs @ ys) = transactions xs @ transactions ys"
  by (induction xs rule: transactions.induct) simp_all

lemma panics_append: "panics (xs @ ys) = panics xs @ panics ys"
  by (induction xs rule: panics.induct) simp_all

lemma error_lines_announce_events:
  "error_lines (announce_events r ip mac) =
     (case announce r ip mac of None \<Rightarrow> [] | Some err \<Rightarrow> [''failed to send ARP announcement: '' @ err])"
  by (simp add: announce_events_def split: option.split)

lemma removeVIP_never_panics: "panics (fst (removeVIP r req db)) = []"
  by (simp add: removeVIP_def Exec_def Let_def respond_def panics_append panics_announce_events
      split: sum.split option.split prod.split)

lemma toggleVIP_never_panics: "panics (fst (toggleVIP r req db)) = []"
  by (simp add: toggleVIP_def Exec_def Let_def respond_def panics_append panics_announce_events
      split: sum.split option.split prod.split)

lemma list_all_replicate: "P x \<Longrightarrow> list_all P (replicate n x)"
  by (induction n) simp_all

lemma length_demo_token: "length demo_token = 64"
  by (simp add: demo_token_def)

lemma demo_list_decodes: "listVIPParam_UnmarshalJSON (Inr demo_list) = Inr demo_list"
  by (simp add: listVIPParam_UnmarshalJSON_def listVIPParam_validate_def demo_list_def
      length_demo_token)

lemma RuneCountInString_primary: "RuneCountInString ''primary'' = 7"
  by code_simp

lemma demo_add_decodes: "addVIPParam_UnmarshalJSON (Inr demo_add) = Inr demo_add"
  by (simp add: addVIPParam_UnmarshalJSON_def addVIPParam_validate_def demo_add_def
      length_demo_token RuneCountInString_primary)

lemma demo_remove_decodes: "removeVIPParam_UnmarshalJSON (Inr demo_remove) = Inr demo_remove"
  by (simp add: removeVIPParam_UnmarshalJSON_def removeVIPParam_validate_def demo_remove_def
      length_demo_token)

lemma demo_toggle_decodes: "toggleVIPParam_UnmarshalJSON (Inr demo_toggle) = Inr demo_toggle"
  by (simp add: toggleVIPParam_UnmarshalJSON_def toggleVIPParam_validate_def demo_toggle_def
      length_demo_token)

lemma demo_session: "session demo_api demo_token = Some \<lparr>User.ID = 9\<rparr>"
  by (simp add: demo_api_def)

section \<open>Facts about the examples\<close>

lemma length_demo_unknown: "length demo_unknown = 64"
  by (simp add: demo_unknown_def)

lemma demo_unknown_session: "session demo_api demo_unknown = None"
  by (simp add: demo_api_def demo_unknown_def demo_token_def)

lemma demo_AddVIP_empty:
  "AddVIP (DB demo_api) 9 7 1 2 ''primary'' Map.empty
     = (((Some demo_vip, False), None), demo_store)"
  by (simp add: demo_api_def demo_gateway_def demo_store_def)

lemma demo_AddVIP_again:
  "AddVIP (DB demo_api) 9 7 1 2 ''primary'' demo_store = (((None, True), None), demo_store)"
  by (simp add: demo_api_def demo_gateway_def demo_store_def)

lemma demo_RemoveVIP:
  "RemoveVIP (DB demo_api) 9 5 demo_store = ((Some demo_vip, None), Map.empty)"
  by (simp add: demo_api_def demo_gateway_def demo_store_def store_RemoveVIP_def)

lemma demo_ToggleVIP:
  "ToggleVIP (DB demo_api) 9 5 demo_store
     = ((Some (swap_roles demo_vip), None), Map.empty(5 \<mapsto> swap_roles demo_vip))"
  by (simp add: demo_api_def demo_gateway_def demo_store_def store_ToggleVIP_def)

lemma demo_add_fields:
  "addVIPParam.SessionID demo_add = demo_token" "IPID demo_add = 7" "ActiveHostID demo_add = 1"
  "StandbyHostID demo_add = 2" "addVIPParam.Description demo_add = ''primary''"
  by (simp_all add: demo_add_def)

lemma demo_remove_fields:
  "removeVIPParam.SessionID demo_remove = demo_token" "removeVIPParam.ID demo_remove = 5"
  by (simp_all add: demo_remove_def)

lemma demo_toggle_fields:
  "toggleVIPParam.SessionID demo_toggle = demo_token" "toggleVIPParam.ID demo_toggle = 5"
  by (simp_all add: demo_toggle_def)

lemma demo_vip_fields:
  "IP demo_vip = ''10.0.0.7''" "MAC (ActiveHost demo_vip) = ''52:54:00:00:00:01''"
  "IP (swap_roles demo_vip) = ''10.0.0.7''"
  "MAC (ActiveHost (swap_roles demo_vip)) = ''52:54:00:00:00:02''"
  by (simp_all add: demo_vip_def demo_active_def demo_standby_def swap_roles_def)

lemma demo_api_unreachable_fields:
  "session demo_api_unreachable = session demo_api" "DB demo_api_unreachable = DB demo_api"
  "announce demo_api_unreachable ip mac = Some ''network is unreachable''"
  by (simp_all add: demo_api_unreachable_def)

lemma demo_api_nil_fields:
  "session demo_api_nil = session demo_api"
  "AddVIP (DB demo_api_nil) q i a b d st = (((None, False), None), st)"
  by (simp_all add: demo_api_nil_def)

lemma demo_list_other_decodes:
  "listVIPParam_UnmarshalJSON (Inr demo_list_other) = Inr demo_list_other"
  by (simp add: listVIPParam_UnmarshalJSON_def listVIPParam_validate_def demo_list_def
      demo_list_other_def length_demo_unknown)

section \<open>Toggling through the handler\<close>

text \<open>
  With a gateway that toggles as \<open>store_ToggleVIP\<close> does, two runs of the handler on the
  same request leave the store as it was, and one run on an existing record announces the
  MAC of the host that was the standby.
\<close>

lemma swap_roles_twice: "swap_roles (swap_roles v) = v"
  by (simp add: swap_roles_def)

lemma toggleVIP_twice_restores_store:
  assumes "ToggleVIP (DB r) = store_ToggleVIP"
  shows "snd (toggleVIP r req (snd (toggleVIP r req st))) = st"
proof (cases "toggleVIPParam_UnmarshalJSON req")
  case (Inl err)
  then show ?thesis by (simp add: toggleVIP_invalid)
next
  case (Inr p)
  show ?thesis
  proof (cases "session r (toggleVIPParam.SessionID p)")
    case None
    with Inr show ?thesis by (simp add: toggleVIP_unknown)
  next
    case (Some u)
    show ?thesis
    proof (cases "st (toggleVIPParam.ID p)")
      case None
      then have "ToggleVIP (DB r) (User.ID u) (toggleVIPParam.ID p) st = ((None, None), st)"
        by (simp add: assms store_ToggleVIP_def)
      from toggleVIP_absent [OF Inr Some this] show ?thesis by simp
    next
      case (Some v)
      let ?st = "st(toggleVIPParam.ID p \<mapsto> swap_roles v)"
      have one: "ToggleVIP (DB r) (User.ID u) (toggleVIPParam.ID p) st
          = ((Some (swap_roles v), None), ?st)"
        using Some by (simp add: assms store_ToggleVIP_def)
      have "st(toggleVIPParam.ID p \<mapsto> v) = st" using Some by (rule map_upd_triv)
      then have two: "ToggleVIP (DB r) (User.ID u) (toggleVIPParam.ID p) ?st = ((Some v, None), st)"
        by (simp add: assms store_ToggleVIP_def swap_roles_twice)
      from toggleVIP_toggled [OF Inr \<open>session r (toggleVIPParam.SessionID p) = Some u\<close> one]
        toggleVIP_toggled [OF Inr \<open>session r (toggleVIPParam.SessionID p) = Some u\<close> two]
      show ?thesis by simp
    qed
  qed
qed

lemma toggleVIP_announces_former_standby:
  assumes "ToggleVIP (DB r) = store_ToggleVIP" "toggleVIPParam_UnmarshalJSON req = Inr p"
    "session r (toggleVIPParam.SessionID p) = Some u" "st (toggleVIPParam.ID p) = Some v"
  shows "announcements (fst (toggleVIP r req st)) = [(IP v, MAC (StandbyHost v))]"
proof -
  have "ToggleVIP (DB r) (User.ID u) (toggleVIPParam.ID p) st
      = ((Some (swap_roles v), None), st(toggleVIPParam.ID p \<mapsto> swap_roles v))"
    using assms(4) by (simp add: assms(1) store_ToggleVIP_def)
  from toggleVIP_toggled [OF assms(2,3) this] show ?thesis
    by (simp add: announcements_append announcements_announce_events respond_def swap_roles_def)
qed

section \<open>The claims\<close>

text \<open>
  Claim C1. When an Add, Remove or Toggle request decodes, its session is known and the
  gateway call inside the transaction returns a record with no error (and, for Add, no
  duplicate), the run makes exactly one announcement: Add announces the record's IP with
  the MAC of its active host, Remove the record's IP with the null MAC, Toggle the IP of
  the record the gateway returned (the record after the swap) with the MAC of its active
  host. The run holds exactly one transaction, and no announcement is made in the part of
  the run that precedes its completion.
\<close>

theorem successful_mutation_announces_once_after_commit:
  "(addVIPParam_UnmarshalJSON areq = Inr ap \<and> session r (addVIPParam.SessionID ap) = Some au
      \<and> AddVIP (DB r) (User.ID au) (IPID ap) (ActiveHostID ap) (StandbyHostID ap)
            (addVIPParam.Description ap) db1 = (((Some av, False), None), adb) \<longrightarrow>
      announcements (fst (addVIP r areq db1)) = [(IP av, MAC (ActiveHost av))]
      \<and> announcements (before_transaction (fst (addVIP r areq db1))) = []
      \<and> transactions (fst (addVIP r areq db1)) =
            [CallAddVIP (User.ID au) (IPID ap) (ActiveHostID ap) (StandbyHostID ap)
               (addVIPParam.Description ap)])
   \<and> (removeVIPParam_UnmarshalJSON rreq = Inr rp \<and> session r (removeVIPParam.SessionID rp) = Some ru
      \<and> RemoveVIP (DB r) (User.ID ru) (removeVIPParam.ID rp) db2 = ((Some rv, None), rdb) \<longrightarrow>
      announcements (fst (removeVIP r rreq db2)) = [(IP rv, NullMAC_String)]
      \<and> announcements (before_transaction (fst (removeVIP r rreq db2))) = []
      \<and> transactions (fst (removeVIP r rreq db2)) = [CallRemoveVIP (User.ID ru) (removeVIPParam.ID rp)])
   \<and> (toggleVIPParam_UnmarshalJSON treq = Inr tp \<and> session r (toggleVIPParam.SessionID tp) = Some tu
      \<and> ToggleVIP (DB r) (User.ID tu) (toggleVIPParam.ID tp) db3 = ((Some tv, None), tdb) \<longrightarrow>
      announcements (fst (toggleVIP r treq db3)) = [(IP tv, MAC (ActiveHost tv))]
      \<and> announcements (before_transaction (fst (toggleVIP r treq db3))) = []
      \<and> transactions (fst (toggleVIP r treq db3)) = [CallToggleVIP (User.ID tu) (toggleVIPParam.ID tp)])"
  by (simp add: addVIP_created removeVIP_removed toggleVIP_toggled announcements_append
      transactions_append announcements_announce_events transactions_announce_events
      before_transaction_def respond_def)

theorem successful_mutation_announces_once_after_commit_witness:
  "announcements (fst (addVIP demo_api (Inr demo_add) Map.empty))
     = [(''10.0.0.7'', ''52:54:00:00:00:01'')]
   \<and> announcements (before_transaction (fst (addVIP demo_api (Inr demo_add) Map.empty))) = []
   \<and> transactions (fst (addVIP demo_api (Inr demo_add) Map.empty))
     = [CallAddVIP 9 7 1 2 ''primary'']
   \<and> announcements (fst (removeVIP demo_api (Inr demo_remove) demo_store))
     = [(''10.0.0.7'', ''00:00:00:00:00:00'')]
   \<and> announcements (before_transaction (fst (removeVIP demo_api (Inr demo_remove) demo_store))) = []
   \<and> transactions (fst (removeVIP demo_api (Inr demo_remove) demo_store)) = [CallRemoveVIP 9 5]
   \<and> announcements (fst (toggleVIP demo_api (Inr demo_toggle) demo_store))
     = [(''10.0.0.7'', ''52:54:00:00:00:02'')]
   \<and> announcements (before_transaction (fst (toggleVIP demo_api (Inr demo_toggle) demo_store))) = []
   \<and> transactions (fst (toggleVIP demo_api (Inr demo_toggle) demo_store)) = [CallToggleVIP 9 5]"
  using successful_mutation_announces_once_after_commit
    [where areq = "Inr demo_add" and ap = demo_add and au = "\<lparr>User.ID = 9\<rparr>"
       and ?db1.0 = Map.empty and av = demo_vip and adb = demo_store
       and rreq = "Inr demo_remove" and rp = demo_remove and ru = "\<lparr>User.ID = 9\<rparr>"
       and ?db2.0 = demo_store and rv = demo_vip and rdb = Map.empty
       and treq = "Inr demo_toggle" and tp = demo_toggle and tu = "\<lparr>User.ID = 9\<rparr>"
       and ?db3.0 = demo_store and tv = "swap_roles demo_vip"
       and tdb = "Map.empty(5 \<mapsto> swap_roles demo_vip)"
       and r = demo_api]
  by (simp add: demo_add_decodes demo_remove_decodes demo_toggle_decodes demo_session
      demo_add_fields demo_remove_fields demo_toggle_fields demo_AddVIP_empty demo_RemoveVIP
      demo_ToggleVIP demo_vip_fields NullMAC_String_def)

text \<open>
  Claim C2. When a Remove or Toggle request decodes, its session is known and the gateway
  returns no record and no error (the id does not exist), the response is the not-found
  status and the run makes no announcement.
\<close>

theorem absent_vip_not_found_without_announcement:
  "(removeVIPParam_UnmarshalJSON rreq = Inr rp \<and> session r (removeVIPParam.SessionID rp) = Some ru
      \<and> RemoveVIP (DB r) (User.ID ru) (removeVIPParam.ID rp) db2 = ((None, None), rdb) \<longrightarrow>
      map Status (responses (fst (removeVIP r rreq db2))) = [StatusNotFound]
      \<and> announcements (fst (removeVIP r rreq db2)) = [])
   \<and> (toggleVIPParam_UnmarshalJSON treq = Inr tp \<and> session r (toggleVIPParam.SessionID tp) = Some tu
      \<and> ToggleVIP (DB r) (User.ID tu) (toggleVIPParam.ID tp) db3 = ((None, None), tdb) \<longrightarrow>
      map Status (responses (fst (toggleVIP r treq db3))) = [StatusNotFound]
      \<and> announcements (fst (toggleVIP r treq db3)) = [])"
  by (simp add: removeVIP_absent toggleVIP_absent respond_def)

theorem absent_vip_not_found_without_announcement_witness:
  "map Status (responses (fst (removeVIP demo_api (Inr demo_remove) Map.empty))) = [StatusNotFound]
   \<and> announcements (fst (removeVIP demo_api (Inr demo_remove) Map.empty)) = []
   \<and> map Status (responses (fst (toggleVIP demo_api (Inr demo_toggle) Map.empty))) = [StatusNotFound]
   \<and> announcements (fst (toggleVIP demo_api (Inr demo_toggle) Map.empty)) = []"
  using absent_vip_not_found_without_announcement
    [where rreq = "Inr demo_remove" and rp = demo_remove and ru = "\<lparr>User.ID = 9\<rparr>"
       and treq = "Inr demo_toggle" and tp = demo_toggle and tu = "\<lparr>User.ID = 9\<rparr>"
       and r = demo_api and ?db2.0 = Map.empty and ?db3.0 = Map.empty
       and rdb = Map.empty and tdb = Map.empty]
  by (simp add: demo_remove_decodes demo_toggle_decodes demo_session)
     (simp add: demo_api_def demo_gateway_def demo_remove_def demo_toggle_def
        store_RemoveVIP_def store_ToggleVIP_def)

text \<open>
  Claim C3. On the successful paths of C1, when the announcement returns an error, the
  response is still the OK status with an empty message (and, for Add, the record as its
  payload), the failure is written to the error log and nowhere else, and the store is
  the committed one.
\<close>

theorem announcement_failure_not_reported:
  "(addVIPParam_UnmarshalJSON areq = Inr ap \<and> session r (addVIPParam.SessionID ap) = Some au
      \<and> AddVIP (DB r) (User.ID au) (IPID ap) (ActiveHostID ap) (StandbyHostID ap)
            (addVIPParam.Description ap) db1 = (((Some av, False), None), adb)
      \<and> announce r (IP av) (MAC (ActiveHost av)) = Some ae \<longrightarrow>
      responses (fst (addVIP r areq db1)) = [\<lparr>Status = StatusOkay, Message = [], Data = VIPData av\<rparr>]
      \<and> error_lines (fst (addVIP r areq db1)) = [''failed to send ARP announcement: '' @ ae]
      \<and> snd (addVIP r areq db1) = adb)
   \<and> (removeVIPParam_UnmarshalJSON rreq = Inr rp \<and> session r (removeVIPParam.SessionID rp) = Some ru
      \<and> RemoveVIP (DB r) (User.ID ru) (removeVIPParam.ID rp) db2 = ((Some rv, None), rdb)
      \<and> announce r (IP rv) NullMAC_String = Some re \<longrightarrow>
      responses (fst (removeVIP r rreq db2)) = [\<lparr>Status = StatusOkay, Message = [], Data = NoData\<rparr>]
      \<and> error_lines (fst (removeVIP r rreq db2)) = [''failed to send ARP announcement: '' @ re]
      \<and> snd (removeVIP r rreq db2) = rdb)
   \<and> (toggleVIPParam_UnmarshalJSON treq = Inr tp \<and> session r (toggleVIPParam.SessionID tp) = Some tu
      \<and> ToggleVIP (DB r) (User.ID tu) (toggleVIPParam.ID tp) db3 = ((Some tv, None), tdb)
      \<and> announce r (IP tv) (MAC (ActiveHost tv)) = Some te \<longrightarrow>
      responses (fst (toggleVIP r treq db3)) = [\<lparr>Status = StatusOkay, Message = [], Data = NoData\<rparr>]
      \<and> error_lines (fst (toggleVIP r treq db3)) = [''failed to send ARP announcement: '' @ te]
      \<and> snd (toggleVIP r treq db3) = tdb)"
  by (simp add: addVIP_created removeVIP_removed toggleVIP_toggled responses_append
      error_lines_append responses_announce_events error_lines_announce_events respond_def)

theorem announcement_failure_not_reported_witness:
  "responses (fst (addVIP demo_api_unreachable (Inr demo_add) Map.empty))
     = [\<lparr>Status = StatusOkay, Message = [], Data = VIPData demo_vip\<rparr>]
   \<and> error_lines (fst (addVIP demo_api_unreachable (Inr demo_add) Map.empty))
     = [''failed to send ARP announcement: network is unreachable'']
   \<and> snd (addVIP demo_api_unreachable (Inr demo_add) Map.empty) = demo_store
   \<and> responses (fst (removeVIP demo_api_unreachable (Inr demo_remove) demo_store))
     = [\<lparr>Status = StatusOkay, Message = [], Data = NoData\<rparr>]
   \<and> error_lines (fst (removeVIP demo_api_unreachable (Inr demo_remove) demo_store))
     = [''failed to send ARP announcement: network is unreachable'']
   \<and> snd (removeVIP demo_api_unreachable (Inr demo_remove) demo_store) = Map.empty
   \<and> responses (fst (toggleVIP demo_api_unreachable (Inr demo_toggle) demo_store))
     = [\<lparr>Status = StatusOkay, Message = [], Data = NoData\<rparr>]
   \<and> error_lines (fst (toggleVIP demo_api_unreachable (Inr demo_toggle) demo_store))
     = [''failed to send ARP announcement: network is unreachable'']
   \<and> snd (toggleVIP demo_api_unreachable (Inr demo_toggle) demo_store)
     = Map.empty(5 \<mapsto> swap_roles demo_vip)"
  using announcement_failure_not_reported
    [where areq = "Inr demo_add" and ap = demo_add and au = "\<lparr>User.ID = 9\<rparr>"
       and ?db1.0 = Map.empty and av = demo_vip and adb = demo_store
       and ae = "''network is unreachable''"
       and rreq = "Inr demo_remove" and rp = demo_remove and ru = "\<lparr>User.ID = 9\<rparr>"
       and ?db2.0 = demo_store and rv = demo_vip and rdb = Map.empty
       and re = "''network is unreachable''"
       and treq = "Inr demo_toggle" and tp = demo_toggle and tu = "\<lparr>User.ID = 9\<rparr>"
       and ?db3.0 = demo_store and tv = "swap_roles demo_vip"
       and tdb = "Map.empty(5 \<mapsto> swap_roles demo_vip)"
       and te = "''network is unreachable''"
       and r = demo_api_unreachable]
  by (simp add: demo_add_decodes demo_remove_decodes demo_toggle_decodes demo_session
      demo_add_fields demo_remove_fields demo_toggle_fields demo_AddVIP_empty demo_RemoveVIP
      demo_ToggleVIP demo_api_unreachable_fields)

text \<open>
  Claim C4. For a request of any of the four operations whose session token is not in the
  session store, the run holds no transaction and the store is untouched, whether or not
  the parameters are valid; when they are valid, so that the handler reaches the session
  lookup, the response is the unknown-session status.
\<close>

theorem unknown_session_opens_no_transaction:
  "(session r (listVIPParam.SessionID lp) = None \<longrightarrow>
      transactions (fst (listVIP r (Inr lp) db)) = [] \<and> snd (listVIP r (Inr lp) db) = db
      \<and> (listVIPParam_validate lp = None \<longrightarrow>
           map Status (responses (fst (listVIP r (Inr lp) db))) = [StatusUnknownSession]))
   \<and> (session r (addVIPParam.SessionID ap) = None \<longrightarrow>
      transactions (fst (addVIP r (Inr ap) db)) = [] \<and> snd (addVIP r (Inr ap) db) = db
      \<and> (addVIPParam_validate ap = None \<longrightarrow>
           map Status (responses (fst (addVIP r (Inr ap) db))) = [StatusUnknownSession]))
   \<and> (session r (removeVIPParam.SessionID rp) = None \<longrightarrow>
      transactions (fst (removeVIP r (Inr rp) db)) = [] \<and> snd (removeVIP r (Inr rp) db) = db
      \<and> (removeVIPParam_validate rp = None \<longrightarrow>
           map Status (responses (fst (removeVIP r (Inr rp) db))) = [StatusUnknownSession]))
   \<and> (session r (toggleVIPParam.SessionID tp) = None \<longrightarrow>
      transactions (fst (toggleVIP r (Inr tp) db)) = [] \<and> snd (toggleVIP r (Inr tp) db) = db
      \<and> (toggleVIPParam_validate tp = None \<longrightarrow>
           map Status (responses (fst (toggleVIP r (Inr tp) db))) = [StatusUnknownSession]))"
proof (intro conjI impI)
  assume s: "session r (listVIPParam.SessionID lp) = None"
  show "transactions (fst (listVIP r (Inr lp) db)) = []" "snd (listVIP r (Inr lp) db) = db"
    using s
    by (cases "listVIPParam_validate lp";
        simp add: listVIP_def listVIPParam_UnmarshalJSON_def respond_def)+
  assume "listVIPParam_validate lp = None"
  then have "listVIPParam_UnmarshalJSON (Inr lp) = Inr lp"
    by (simp add: listVIPParam_UnmarshalJSON_def)
  from listVIP_unknown [OF this s]
  show "map Status (responses (fst (listVIP r (Inr lp) db))) = [StatusUnknownSession]"
    by (simp add: respond_def)
next
  assume s: "session r (addVIPParam.SessionID ap) = None"
  show "transactions (fst (addVIP r (Inr ap) db)) = []" "snd (addVIP r (Inr ap) db) = db"
    using s
    by (cases "addVIPParam_validate ap";
        simp add: addVIP_def addVIPParam_UnmarshalJSON_def respond_def)+
  assume "addVIPParam_validate ap = None"
  then have "addVIPParam_UnmarshalJSON (Inr ap) = Inr ap"
    by (simp add: addVIPParam_UnmarshalJSON_def)
  from addVIP_unknown [OF this s]
  show "map Status (responses (fst (addVIP r (Inr ap) db))) = [StatusUnknownSession]"
    by (simp add: respond_def)
next
  assume s: "session r (removeVIPParam.SessionID rp) = None"
  show "transactions (fst (removeVIP r (Inr rp) db)) = []" "snd (removeVIP r (Inr rp) db) = db"
    using s
    by (cases "removeVIPParam_validate rp";
        simp add: removeVIP_def removeVIPParam_UnmarshalJSON_def respond_def)+
  assume "removeVIPParam_validate rp = None"
  then have "removeVIPParam_UnmarshalJSON (Inr rp) = Inr rp"
    by (simp add: removeVIPParam_UnmarshalJSON_def)
  from removeVIP_unknown [OF this s]
  show "map Status (responses (fst (removeVIP r (Inr rp) db))) = [StatusUnknownSession]"
    by (simp add: respond_def)
next
  assume s: "session r (toggleVIPParam.SessionID tp) = None"
  show "transactions (fst (toggleVIP r (Inr tp) db)) = []" "snd (toggleVIP r (Inr tp) db) = db"
    using s
    by (cases "toggleVIPParam_validate tp";
        simp add: toggleVIP_def toggleVIPParam_UnmarshalJSON_def respond_def)+
  assume "toggleVIPParam_validate tp = None"
  then have "toggleVIPParam_UnmarshalJSON (Inr tp) = Inr tp"
    by (simp add: toggleVIPParam_UnmarshalJSON_def)
  from toggleVIP_unknown [OF this s]
  show "map Status (responses (fst (toggleVIP r (Inr tp) db))) = [StatusUnknownSession]"
    by (simp add: respond_def)
qed

theorem unknown_session_opens_no_transaction_witness:
  "transactions (fst (listVIP demo_api (Inr demo_list_other) demo_store)) = []
   \<and> snd (listVIP demo_api (Inr demo_list_other) demo_store) = demo_store
   \<and> map Status (responses (fst (listVIP demo_api (Inr demo_list_other) demo_store)))
     = [StatusUnknownSession]
   \<and> transactions (fst (addVIP demo_api
        (Inr (demo_add\<lparr>addVIPParam.SessionID := demo_unknown\<rparr>)) demo_store)) = []
   \<and> map Status (responses (fst (addVIP demo_api
        (Inr (demo_add\<lparr>addVIPParam.SessionID := demo_unknown\<rparr>)) demo_store)))
     = [StatusUnknownSession]
   \<and> transactions (fst (removeVIP demo_api
        (Inr (demo_remove\<lparr>removeVIPParam.SessionID := demo_unknown\<rparr>)) demo_store)) = []
   \<and> snd (removeVIP demo_api
        (Inr (demo_remove\<lparr>removeVIPParam.SessionID := demo_unknown\<rparr>)) demo_store) = demo_store
   \<and> map Status (responses (fst (removeVIP demo_api
        (Inr (demo_remove\<lparr>removeVIPParam.SessionID := demo_unknown\<rparr>)) demo_store)))
     = [StatusUnknownSession]
   \<and> transactions (fst (toggleVIP demo_api
        (Inr (demo_toggle\<lparr>toggleVIPParam.SessionID := demo_unknown\<rparr>)) demo_store)) = []
   \<and> snd (toggleVIP demo_api
        (Inr (demo_toggle\<lparr>toggleVIPParam.SessionID := demo_unknown\<rparr>)) demo_store) = demo_store
   \<and> map Status (responses (fst (toggleVIP demo_api
        (Inr (demo_toggle\<lparr>toggleVIPParam.SessionID := demo_unknown\<rparr>)) demo_store)))
     = [StatusUnknownSession]"
proof -
  have l: "listVIPParam_validate demo_list_other = None"
    "listVIPParam.SessionID demo_list_other = demo_unknown"
    by (simp_all add: listVIPParam_validate_def demo_list_other_def demo_list_def
        length_demo_unknown)
  have a: "addVIPParam_validate (demo_add\<lparr>addVIPParam.SessionID := demo_unknown\<rparr>) = None"
    by (simp add: addVIPParam_validate_def demo_add_def length_demo_unknown
        RuneCountInString_primary)
  have r: "removeVIPParam_validate (demo_remove\<lparr>removeVIPParam.SessionID := demo_unknown\<rparr>) = None"
    by (simp add: removeVIPParam_validate_def demo_remove_def length_demo_unknown)
  have t: "toggleVIPParam_validate (demo_toggle\<lparr>toggleVIPParam.SessionID := demo_unknown\<rparr>) = None"
    by (simp add: toggleVIPParam_validate_def demo_toggle_def length_demo_unknown)
  show ?thesis
    using unknown_session_opens_no_transaction
      [where lp = demo_list_other
         and ap = "demo_add\<lparr>addVIPParam.SessionID := demo_unknown\<rparr>"
         and rp = "demo_remove\<lparr>removeVIPParam.SessionID := demo_unknown\<rparr>"
         and tp = "demo_toggle\<lparr>toggleVIPParam.SessionID := demo_unknown\<rparr>"
         and r = demo_api and db = demo_store]
    by (simp add: l a r t demo_unknown_session)
qed

text \<open>
  Claim C5. A request of any of the four operations whose session token is not exactly
  64 bytes long (Go's \<open>len\<close>) is answered with the invalid-parameter status, and the run
  holds no session lookup and no transaction: the rejection comes before the session store
  is consulted.
\<close>

theorem session_id_length_checked_before_lookup:
  "(length (listVIPParam.SessionID lp) \<noteq> 64 \<longrightarrow>
      rejected_before_lookup (fst (listVIP r (Inr lp) db)))
   \<and> (length (addVIPParam.SessionID ap) \<noteq> 64 \<longrightarrow>
      rejected_before_lookup (fst (addVIP r (Inr ap) db)))
   \<and> (length (removeVIPParam.SessionID rp) \<noteq> 64 \<longrightarrow>
      rejected_before_lookup (fst (removeVIP r (Inr rp) db)))
   \<and> (length (toggleVIPParam.SessionID tp) \<noteq> 64 \<longrightarrow>
      rejected_before_lookup (fst (toggleVIP r (Inr tp) db)))"
proof (intro conjI impI)
  assume "length (listVIPParam.SessionID lp) \<noteq> 64"
  then have "listVIPParam_UnmarshalJSON (Inr lp) = Inl ''invalid session id''"
    by (simp add: listVIPParam_UnmarshalJSON_def listVIPParam_validate_def)
  then show "rejected_before_lookup (fst (listVIP r (Inr lp) db))"
    by (simp add: listVIP_invalid rejected_before_lookup_def respond_def)
next
  assume "length (addVIPParam.SessionID ap) \<noteq> 64"
  then have "addVIPParam_UnmarshalJSON (Inr ap) = Inl ''invalid session id''"
    by (simp add: addVIPParam_UnmarshalJSON_def addVIPParam_validate_def)
  then show "rejected_before_lookup (fst (addVIP r (Inr ap) db))"
    by (simp add: addVIP_invalid rejected_before_lookup_def respond_def)
next
  assume "length (removeVIPParam.SessionID rp) \<noteq> 64"
  then have "removeVIPParam_UnmarshalJSON (Inr rp) = Inl ''invalid session id''"
    by (simp add: removeVIPParam_UnmarshalJSON_def removeVIPParam_validate_def)
  then show "rejected_before_lookup (fst (removeVIP r (Inr rp) db))"
    by (simp add: removeVIP_invalid rejected_before_lookup_def respond_def)
next
  assume "length (toggleVIPParam.SessionID tp) \<noteq> 64"
  then have "toggleVIPParam_UnmarshalJSON (Inr tp) = Inl ''invalid session id''"
    by (simp add: toggleVIPParam_UnmarshalJSON_def toggleVIPParam_validate_def)
  then show "rejected_before_lookup (fst (toggleVIP r (Inr tp) db))"
    by (simp add: toggleVIP_invalid rejected_before_lookup_def respond_def)
qed

theorem session_id_length_checked_before_lookup_witness:
  "rejected_before_lookup
     (fst (listVIP demo_api (Inr (demo_list\<lparr>listVIPParam.SessionID := ''short''\<rparr>)) Map.empty))
   \<and> rejected_before_lookup
     (fst (addVIP demo_api (Inr (demo_add\<lparr>addVIPParam.SessionID := ''short''\<rparr>)) Map.empty))
   \<and> rejected_before_lookup
     (fst (removeVIP demo_api (Inr (demo_remove\<lparr>removeVIPParam.SessionID := demo_token @ ''a''\<rparr>))
        Map.empty))
   \<and> rejected_before_lookup
     (fst (toggleVIP demo_api (Inr (demo_toggle\<lparr>toggleVIPParam.SessionID := []\<rparr>)) Map.empty))"
  using session_id_length_checked_before_lookup
    [where lp = "demo_list\<lparr>listVIPParam.SessionID := ''short''\<rparr>"
       and ap = "demo_add\<lparr>addVIPParam.SessionID := ''short''\<rparr>"
       and rp = "demo_remove\<lparr>removeVIPParam.SessionID := demo_token @ ''a''\<rparr>"
       and tp = "demo_toggle\<lparr>toggleVIPParam.SessionID := []\<rparr>"
       and r = demo_api and db = Map.empty]
  by (simp add: length_demo_token)

text \<open>
  Claim C6. When the gateway's \<open>AddVIP\<close> reports a duplicate with no error, the response
  is the duplicated status with no payload, the run makes no announcement, and the status
  is not the internal-error one.
\<close>

theorem duplicated_add_is_reported_not_failed:
  assumes "addVIPParam_UnmarshalJSON req = Inr p" "session r (addVIPParam.SessionID p) = Some u"
    "AddVIP (DB r) (User.ID u) (IPID p) (ActiveHostID p) (StandbyHostID p)
       (addVIPParam.Description p) db = (((vip, True), None), db')"
  shows "responses (fst (addVIP r req db)) =
           [\<lparr>Status = StatusDuplicated,
             Message = ''duplicated VIP: ip_id='' @ Sprintf_uint64 (IPID p), Data = NoData\<rparr>]
         \<and> announcements (fst (addVIP r req db)) = []
         \<and> map Status (responses (fst (addVIP r req db))) \<noteq> [StatusInternalServerError]"
  by (simp add: addVIP_duplicated [OF assms] respond_def)

theorem duplicated_add_is_reported_not_failed_witness:
  "responses (fst (addVIP demo_api (Inr demo_add) demo_store)) =
     [\<lparr>Status = StatusDuplicated, Message = ''duplicated VIP: ip_id=7'', Data = NoData\<rparr>]
   \<and> announcements (fst (addVIP demo_api (Inr demo_add) demo_store)) = []"
proof -
  have "Sprintf_uint64 7 = ''7''"
    by code_simp
  then show ?thesis
    using duplicated_add_is_reported_not_failed
      [where req = "Inr demo_add" and p = demo_add and u = "\<lparr>User.ID = 9\<rparr>" and r = demo_api
         and db = demo_store and vip = None and db' = demo_store]
    by (simp add: demo_add_decodes demo_session demo_add_fields demo_AddVIP_again)
qed

text \<open>
  Claim C7. An Add request whose description is the UTF-8 string of more than 255 Unicode
  code points is refused by validation and answered with the invalid-parameter status; a
  description of exactly 255 code points passes validation when the other four checks do.
\<close>

theorem description_limit_255_code_points:
  assumes "list_all valid_rune cps" "addVIPParam.Description p = utf8_string cps"
  shows "(255 < length cps \<longrightarrow>
            addVIPParam_validate p \<noteq> None
            \<and> map Status (responses (fst (addVIP r (Inr p) db))) = [StatusInvalidParameter])
         \<and> (length cps = 255 \<and> length (addVIPParam.SessionID p) = 64 \<and> ActiveHostID p \<noteq> 0
              \<and> StandbyHostID p \<noteq> 0 \<and> ActiveHostID p \<noteq> StandbyHostID p \<longrightarrow>
            addVIPParam_validate p = None)"
proof -
  have n: "RuneCountInString (addVIPParam.Description p) = length cps"
    using assms by (simp add: RuneCountInString_utf8_string)
  show ?thesis
  proof (intro conjI impI)
    assume "255 < length cps"
    then show v: "addVIPParam_validate p \<noteq> None"
      by (simp add: addVIPParam_validate_def n)
    then obtain err where "addVIPParam_UnmarshalJSON (Inr p) = Inl err"
      by (auto simp: addVIPParam_UnmarshalJSON_def)
    then show "map Status (responses (fst (addVIP r (Inr p) db))) = [StatusInvalidParameter]"
      by (simp add: addVIP_invalid respond_def)
  next
    assume "length cps = 255 \<and> length (addVIPParam.SessionID p) = 64 \<and> ActiveHostID p \<noteq> 0
              \<and> StandbyHostID p \<noteq> 0 \<and> ActiveHostID p \<noteq> StandbyHostID p"
    then show "addVIPParam_validate p = None"
      by (simp add: addVIPParam_validate_def n)
  qed
qed

theorem description_limit_255_code_points_witness:
  "map Status (responses (fst (addVIP demo_api (Inr demo_add_256) Map.empty)))
     = [StatusInvalidParameter]
   \<and> addVIPParam_validate demo_add_255 = None"
proof -
  have v: "list_all valid_rune (replicate 256 0xE9)" "list_all valid_rune (replicate 255 0x1F600)"
    by (simp_all add: list_all_replicate valid_rune_def)
  show ?thesis
    using description_limit_255_code_points
      [where cps = "replicate 256 0xE9" and p = demo_add_256 and r = demo_api and db = Map.empty]
      description_limit_255_code_points
      [where cps = "replicate 255 0x1F600" and p = demo_add_255]
    by (simp add: v demo_add_256_def demo_add_255_def demo_add_def length_demo_token)
qed

text \<open>
  Claim C8. On the store modelled from the specification, Toggle on an existing id returns
  the record with the two roles swapped, id and ip unchanged, and a second Toggle on the
  same id returns the original record and restores the store.
\<close>

theorem toggle_twice_restores_record:
  assumes "st vipID = Some v"
  shows "store_ToggleVIP q1 vipID st = ((Some (swap_roles v), None), st(vipID \<mapsto> swap_roles v))
         \<and> store_ToggleVIP q2 vipID (snd (store_ToggleVIP q1 vipID st)) = ((Some v, None), st)
         \<and> VIP.ID (swap_roles v) = VIP.ID v \<and> IP (swap_roles v) = IP v
         \<and> ActiveHost (swap_roles v) = StandbyHost v \<and> StandbyHost (swap_roles v) = ActiveHost v"
proof -
  have "swap_roles (swap_roles v) = v" by (simp add: swap_roles_def)
  moreover have "st(vipID \<mapsto> v) = st" using assms by (rule map_upd_triv)
  ultimately show ?thesis using assms by (simp add: store_ToggleVIP_def swap_roles_def)
qed

theorem toggle_twice_restores_record_witness:
  "store_ToggleVIP 9 5 demo_store
     = ((Some (swap_roles demo_vip), None), demo_store(5 \<mapsto> swap_roles demo_vip))
   \<and> store_ToggleVIP 9 5 (snd (store_ToggleVIP 9 5 demo_store)) = ((Some demo_vip, None), demo_store)
   \<and> VIP.ID (swap_roles demo_vip) = VIP.ID demo_vip \<and> IP (swap_roles demo_vip) = IP demo_vip
   \<and> ActiveHost (swap_roles demo_vip) = StandbyHost demo_vip
   \<and> StandbyHost (swap_roles demo_vip) = ActiveHost demo_vip"
proof -
  have h: "demo_store 5 = Some demo_vip" by (simp add: demo_store_def)
  show ?thesis
    by (rule toggle_twice_restores_record
          [where st = demo_store and vipID = 5 and v = demo_vip and ?q1.0 = 9 and ?q2.0 = 9, OF h])
qed

text \<open>
  Claim C9. On the Add path where the transaction returns no error and no duplicate, the
  handler reads the fields of the returned record without a nil check: the run is free of
  a nil-dereference panic exactly when the gateway returned a record. Remove and Toggle
  never panic, whatever the gateway returns.
\<close>

theorem add_success_path_dereferences_unchecked:
  assumes "addVIPParam_UnmarshalJSON req = Inr p" "session r (addVIPParam.SessionID p) = Some u"
    "AddVIP (DB r) (User.ID u) (IPID p) (ActiveHostID p) (StandbyHostID p)
       (addVIPParam.Description p) db = (((vip, False), None), db')"
  shows "(panics (fst (addVIP r req db)) = []) = (vip \<noteq> None)
         \<and> panics (fst (removeVIP r rreq rdb)) = []
         \<and> panics (fst (toggleVIP r treq tdb)) = []"
proof (cases vip)
  case None
  with assms show ?thesis
    by (simp add: addVIP_nil removeVIP_never_panics toggleVIP_never_panics)
next
  case (Some v)
  with assms show ?thesis
    by (simp add: addVIP_created removeVIP_never_panics toggleVIP_never_panics panics_append
        panics_announce_events respond_def)
qed

theorem add_success_path_dereferences_unchecked_witness:
  "panics (fst (addVIP demo_api_nil (Inr demo_add) Map.empty)) \<noteq> []
   \<and> panics (fst (addVIP demo_api (Inr demo_add) Map.empty)) = []
   \<and> panics (fst (removeVIP demo_api (Inr demo_remove) Map.empty)) = []
   \<and> panics (fst (toggleVIP demo_api (Inr demo_toggle) Map.empty)) = []"
  using add_success_path_dereferences_unchecked
    [where req = "Inr demo_add" and p = demo_add and u = "\<lparr>User.ID = 9\<rparr>"
       and r = demo_api_nil and db = Map.empty and vip = None and db' = Map.empty
       and rreq = "Inr demo_remove" and rdb = Map.empty
       and treq = "Inr demo_toggle" and tdb = Map.empty]
    add_success_path_dereferences_unchecked
    [where req = "Inr demo_add" and p = demo_add and u = "\<lparr>User.ID = 9\<rparr>"
       and r = demo_api and db = Map.empty and vip = "Some demo_vip" and db' = demo_store
       and rreq = "Inr demo_remove" and rdb = Map.empty
       and treq = "Inr demo_toggle" and tdb = Map.empty]
  by (simp add: demo_add_decodes demo_session demo_add_fields demo_AddVIP_empty
      demo_api_nil_fields)

text \<open>
  Claim C10. Two List requests that decode, whose tokens both resolve to some user and
  whose paginations are equal, query the store with the pagination alone and identically,
  and get the same response and the same store, whoever the users are.
\<close>

theorem list_ignores_identity:
  assumes "listVIPParam_UnmarshalJSON req1 = Inr p1" "listVIPParam_UnmarshalJSON req2 = Inr p2"
    "session r (listVIPParam.SessionID p1) = Some u1"
    "session r (listVIPParam.SessionID p2) = Some u2"
    "listVIPParam.Pagination p1 = listVIPParam.Pagination p2"
  shows "transactions (fst (listVIP r req1 db)) = [CallVIPs (listVIPParam.Pagination p1)]
         \<and> transactions (fst (listVIP r req2 db)) = transactions (fst (listVIP r req1 db))
         \<and> responses (fst (listVIP r req2 db)) = responses (fst (listVIP r req1 db))
         \<and> snd (listVIP r req2 db) = snd (listVIP r req1 db)"
  using assms
  by (simp add: listVIP_def Exec_def respond_def split: prod.split option.split)

theorem list_ignores_identity_witness:
  "transactions (fst (listVIP demo_api_two (Inr demo_list) demo_store))
     = [CallVIPs \<lparr>Offset = 0, Limit = 10\<rparr>]
   \<and> transactions (fst (listVIP demo_api_two (Inr demo_list_other) demo_store))
     = transactions (fst (listVIP demo_api_two (Inr demo_list) demo_store))
   \<and> responses (fst (listVIP demo_api_two (Inr demo_list_other) demo_store))
     = responses (fst (listVIP demo_api_two (Inr demo_list) demo_store))
   \<and> snd (listVIP demo_api_two (Inr demo_list_other) demo_store)
     = snd (listVIP demo_api_two (Inr demo_list) demo_store)"
  using list_ignores_identity
    [where ?req1.0 = "Inr demo_list" and ?p1.0 = demo_list and ?u1.0 = "\<lparr>User.ID = 9\<rparr>"
       and ?req2.0 = "Inr demo_list_other" and ?p2.0 = demo_list_other
       and ?u2.0 = "\<lparr>User.ID = 10\<rparr>" and r = demo_api_two and db = demo_store]
  by (simp add: demo_list_decodes demo_list_other_decodes)
     (simp add: demo_api_two_def demo_list_def demo_list_other_def demo_unknown_def demo_token_def)

end
